theory Spec2Isabelle
  imports Complex_Main "HOL-Library.Sublist" "HOL-Library.Multiset"
begin

section \<open>JavaScript values used by the movie backend\<close>

text \<open>
  Strings are \<open>string\<close> (lists of characters). Numbers that the code only uses as
  integers (row keys, counts, years, page numbers) are \<open>nat\<close> or \<open>int\<close>, taken without
  an upper bound. The vote counters of a review are INTEGER columns: the store refuses
  to write a value above 2147483647 into them. Timestamp columns are left out: no
  operation below reads them.
\<close>

subsection \<open>Number to string\<close>

text \<open>\<open>`${n}`\<close> and \<open>n.toString()\<close> on an integer: its decimal numeral.\<close>

definition decimal_digit :: "nat \<Rightarrow> char" where
  "decimal_digit d = ''0123456789'' ! (d mod 10)"

fun nat_toString :: "nat \<Rightarrow> string" where
  "nat_toString n =
     (if n < 10 then [decimal_digit n]
      else nat_toString (n div 10) @ [decimal_digit (n mod 10)])"

declare nat_toString.simps [simp del]

definition int_toString :: "int \<Rightarrow> string" where
  "int_toString i = (if i < 0 then CHR ''-'' # nat_toString (nat (- i)) else nat_toString (nat i))"

subsection \<open>String methods\<close>

text \<open>\<open>s.startsWith(p)\<close>.\<close>

definition startsWith :: "string \<Rightarrow> string \<Rightarrow> bool" where
  "startsWith s p = (take (length p) s = p)"

text \<open>
  \<open>s.replace(pat, rep)\<close> with a string pattern and a replacement without \<open>$\<close>: the
  first occurrence of \<open>pat\<close>, scanning from the left, is replaced; a string without an
  occurrence is returned as it is.
\<close>

fun replace_first :: "string \<Rightarrow> string \<Rightarrow> string \<Rightarrow> string" where
  "replace_first pat rep [] = (if pat = [] then rep else [])"
| "replace_first pat rep (c # cs) =
     (if startsWith (c # cs) pat then rep @ drop (length pat) (c # cs)
      else c # replace_first pat rep cs)"

text \<open>
  \<open>s.toLowerCase()\<close>. A string is given by the bytes of its UTF-8 form, so a string
  of characters below 128 is an ASCII string. On an ASCII string the letters A to Z are
  replaced by a to z and every other character is kept. On a string with a character
  outside ASCII the result comes from the Unicode case mapping of the runtime; that
  mapping is the parameter \<open>unicode_lower\<close>.
\<close>

definition letter_table :: "(char \<times> char) list" where
  "letter_table = zip ''ABCDEFGHIJKLMNOPQRSTUVWXYZ'' ''abcdefghijklmnopqrstuvwxyz''"

definition lower_char :: "char \<Rightarrow> char" where
  "lower_char c = (case map_of letter_table c of Some l \<Rightarrow> l | None \<Rightarrow> c)"

definition is_ascii :: "char \<Rightarrow> bool" where
  "is_ascii c = (of_char c < (128 :: nat))"

definition toLowerCase :: "(string \<Rightarrow> string) \<Rightarrow> string \<Rightarrow> string" where
  "toLowerCase unicode_lower s = (if list_all is_ascii s then map lower_char s else unicode_lower s)"

text \<open>
  Two strings that match case-insensitively, in words: they have the same length, and
  at each position the characters are the same or are the capital and the small form of
  one letter.
\<close>

definition same_letter :: "char \<Rightarrow> char \<Rightarrow> bool" where
  "same_letter a b = (a = b \<or> (a, b) \<in> set letter_table \<or> (b, a) \<in> set letter_table)"

definition equal_ignoring_case :: "string \<Rightarrow> string \<Rightarrow> bool" where
  "equal_ignoring_case s t = list_all2 same_letter s t"

section \<open>Movie references\<close>

text \<open>
  The column \<open>movie_source\<close> and the variable \<open>movieSource\<close> of the routes hold
  \<open>'omdb'\<close> (the external provider) or \<open>'custom'\<close> (the local catalog).
\<close>

datatype movie_source = omdb | custom

definition local_prefix :: string where
  "local_prefix = ''custom_''"

text \<open>
  The reference string of a movie. A local movie gets
  \<open>imdbID: `custom_${movie.id}`\<close> in \<open>Movie.transformToOMDBFormat\<close>; the raw id is the
  decimal numeral of the row key. An external movie keeps the provider's \<open>imdbID\<close>
  as it is.
\<close>

fun encode :: "movie_source \<Rightarrow> string \<Rightarrow> string" where
  "encode custom rawId = local_prefix @ rawId"
| "encode omdb rawId = rawId"

text \<open>
  \<open>GET /api/movies/:id\<close> decides the origin of \<open>id\<close> and the identifier it looks up:
  \<^verbatim>\<open>
    if (id.startsWith('custom_')) {
      const customId = id.replace('custom_', '');
      ... Movie.findById(customId) ... movieSource = 'custom'
    } else {
      movie = await OMDBService.getMovieById(id);      // movieSource = 'omdb'
    }
  \<close>
\<close>

definition decode :: "string \<Rightarrow> movie_source \<times> string" where
  "decode ident =
     (if startsWith ident local_prefix then (custom, replace_first local_prefix [] ident)
      else (omdb, ident))"

text \<open>A numeric local key as text: the decimal numeral of a row key.\<close>

definition is_decimal_digit :: "char \<Rightarrow> bool" where
  "is_decimal_digit c = (c \<in> set ''0123456789'')"

definition numeric_key :: "string \<Rightarrow> bool" where
  "numeric_key s = (s \<noteq> [] \<and> list_all is_decimal_digit s)"

fun valid_reference :: "movie_source \<Rightarrow> string \<Rightarrow> bool" where
  "valid_reference custom rawId = numeric_key rawId"
| "valid_reference omdb rawId = (\<not> startsWith rawId local_prefix)"

section \<open>The relational store\<close>

text \<open>
  The tables \<open>users\<close>, \<open>reviews\<close> and \<open>watchlists\<close> of the schema as lists of rows,
  in insertion order, together with the sequences behind the SERIAL keys of the two
  ledgers. A statement that the store rejects gives one of the errors below; the rows are
  then unchanged.
\<close>

datatype pg_error =
    unique_violation
  | check_violation
  | foreign_key_violation
  | string_data_right_truncation
  | numeric_value_out_of_range
  | division_by_zero

text \<open>
  A stored JSONB value, given by its canonical text: two stored values are equal exactly
  when their canonical texts are.
\<close>

type_synonym jsonb = string

record user_row =
  u_id :: nat
  u_email :: string
  u_name :: string
  u_role :: string

record review_row =
  r_id :: nat
  r_user_id :: nat
  r_movie_id :: string
  r_movie_source :: movie_source
  r_title :: string
  r_content :: string
  r_rating :: int
  r_helpful_count :: int
  r_total_votes :: int

record watchlist_row =
  w_id :: nat
  w_user_id :: nat
  w_movie_id :: string
  w_movie_source :: movie_source
  w_movie_data :: jsonb

record db =
  users :: "user_row list"
  reviews :: "review_row list"
  watchlists :: "watchlist_row list"
  reviews_id_seq :: nat
  watchlists_id_seq :: nat

text \<open>\<open>result.rows[0] || null\<close>: the first row of a result, if there is one.\<close>

definition rows0 :: "'a list \<Rightarrow> 'a option" where
  "rows0 rows = (case rows of [] \<Rightarrow> None | row # _ \<Rightarrow> Some row)"

text \<open>An HTTP reply: \<open>res.status(s).json(body)\<close>, or \<open>res.status(s).json({ error })\<close>.\<close>

datatype 'a reply = Json nat 'a | Failure nat string

section \<open>Review ledger\<close>

text \<open>
  The constraints of the table \<open>reviews\<close> on a row that is written:
  \<open>movie_id VARCHAR(50)\<close>, \<open>title VARCHAR(255)\<close>,
  \<open>CHECK (rating >= 1 AND rating <= 10)\<close>.
\<close>

definition review_row_rejected :: "review_row \<Rightarrow> pg_error option" where
  "review_row_rejected r =
     (if 50 < length (r_movie_id r) \<or> 255 < length (r_title r) then Some string_data_right_truncation
      else if \<not> (1 \<le> r_rating r \<and> r_rating r \<le> 10) then Some check_violation
      else None)"

definition same_review_key :: "nat \<Rightarrow> string \<Rightarrow> movie_source \<Rightarrow> review_row \<Rightarrow> bool" where
  "same_review_key userId movieId movieSource r =
     (r_user_id r = userId \<and> r_movie_id r = movieId \<and> r_movie_source r = movieSource)"

text \<open>
  \<open>Review.create\<close>:
  \<^verbatim>\<open>
    INSERT INTO reviews (user_id, movie_id, movie_source, title, content, rating)
    VALUES ($1, $2, $3, $4, $5, $6)  RETURNING *
  \<close>
  under \<open>id SERIAL PRIMARY KEY\<close>, \<open>user_id INTEGER REFERENCES users(id)\<close>,
  \<open>helpful_count INTEGER DEFAULT 0\<close>, \<open>total_votes INTEGER DEFAULT 0\<close> and
  \<open>UNIQUE(user_id, movie_id, movie_source)\<close>. The sequence advances also when the
  insert is rejected.
\<close>

definition Review_create ::
  "db \<Rightarrow> nat \<Rightarrow> string \<Rightarrow> movie_source \<Rightarrow> string \<Rightarrow> string \<Rightarrow> int
     \<Rightarrow> (pg_error + review_row) \<times> db" where
  "Review_create d userId movieId movieSource title content rating =
     (let d1 = d\<lparr>reviews_id_seq := Suc (reviews_id_seq d)\<rparr>;
          row = \<lparr>r_id = reviews_id_seq d1, r_user_id = userId, r_movie_id = movieId,
                 r_movie_source = movieSource, r_title = title, r_content = content,
                 r_rating = rating, r_helpful_count = 0, r_total_votes = 0\<rparr>
      in case review_row_rejected row of
           Some e \<Rightarrow> (Inl e, d1)
         | None \<Rightarrow>
             if list_ex (same_review_key userId movieId movieSource) (reviews d)
             then (Inl unique_violation, d1)
             else if \<not> list_ex (\<lambda>u. u_id u = userId) (users d)
             then (Inl foreign_key_violation, d1)
             else (Inr row, d1\<lparr>reviews := reviews d @ [row]\<rparr>))"

text \<open>\<open>FROM reviews r JOIN users u ON r.user_id = u.id\<close>.\<close>

definition reviews_join_users :: "db \<Rightarrow> (review_row \<times> user_row) list" where
  "reviews_join_users d =
     concat (map (\<lambda>r. map (\<lambda>u. (r, u)) (filter (\<lambda>u. r_user_id r = u_id u) (users d))) (reviews d))"

definition Review_findById :: "db \<Rightarrow> nat \<Rightarrow> (review_row \<times> user_row) option" where
  "Review_findById d rid = rows0 (filter (\<lambda>(r, u). r_id r = rid) (reviews_join_users d))"

definition Review_findUserReviewForMovie ::
  "db \<Rightarrow> nat \<Rightarrow> string \<Rightarrow> movie_source \<Rightarrow> (review_row \<times> user_row) option" where
  "Review_findUserReviewForMovie d userId movieId movieSource =
     rows0 (filter (\<lambda>(r, u). same_review_key userId movieId movieSource r) (reviews_join_users d))"

text \<open>
  \<open>Review.update\<close>: \<open>title = COALESCE($1, title)\<close>, likewise \<open>content\<close> and
  \<open>rating\<close>, \<open>WHERE id = $4 RETURNING *\<close>; a new value is checked like an inserted one.
\<close>

definition coalesce :: "'a option \<Rightarrow> 'a \<Rightarrow> 'a" where
  "coalesce new old = (case new of None \<Rightarrow> old | Some v \<Rightarrow> v)"

definition review_updated :: "string option \<Rightarrow> string option \<Rightarrow> int option \<Rightarrow> review_row \<Rightarrow> review_row" where
  "review_updated title content rating r =
     r\<lparr>r_title := coalesce title (r_title r), r_content := coalesce content (r_content r),
       r_rating := coalesce rating (r_rating r)\<rparr>"

definition Review_update ::
  "db \<Rightarrow> nat \<Rightarrow> string option \<Rightarrow> string option \<Rightarrow> int option
     \<Rightarrow> (pg_error + review_row option) \<times> db" where
  "Review_update d rid title content rating =
     (let hit = map (review_updated title content rating) (filter (\<lambda>r. r_id r = rid) (reviews d))
      in case rows0 (List.map_filter review_row_rejected hit) of
           Some e \<Rightarrow> (Inl e, d)
         | None \<Rightarrow>
             (Inr (rows0 hit),
              d\<lparr>reviews := map (\<lambda>r. if r_id r = rid then review_updated title content rating r else r)
                               (reviews d)\<rparr>))"

text \<open>\<open>Review.delete\<close>: \<open>DELETE FROM reviews WHERE id = $1 RETURNING *\<close>.\<close>

definition Review_delete :: "db \<Rightarrow> nat \<Rightarrow> review_row option \<times> db" where
  "Review_delete d rid =
     (rows0 (filter (\<lambda>r. r_id r = rid) (reviews d)),
      d\<lparr>reviews := filter (\<lambda>r. r_id r \<noteq> rid) (reviews d)\<rparr>)"

text \<open>
  \<open>Review.markHelpful\<close>:
  \<^verbatim>\<open>
    UPDATE reviews SET
      helpful_count = helpful_count + CASE WHEN $2 THEN 1 ELSE 0 END,
      total_votes = total_votes + 1,
      updated_at = CURRENT_TIMESTAMP
    WHERE id = $1  RETURNING *
  \<close>
  under \<open>helpful_count INTEGER\<close> and \<open>total_votes INTEGER\<close>: adding 1 to the largest
  INTEGER, 2147483647, is refused (integer out of range), and the statement then changes
  nothing.
\<close>

definition int4_max :: int where
  "int4_max = 2147483647"

definition review_voted :: "bool \<Rightarrow> review_row \<Rightarrow> review_row" where
  "review_voted isHelpful r =
     r\<lparr>r_helpful_count := r_helpful_count r + (if isHelpful then 1 else 0),
       r_total_votes := r_total_votes r + 1\<rparr>"

definition vote_fits :: "bool \<Rightarrow> review_row \<Rightarrow> bool" where
  "vote_fits isHelpful r =
     (r_total_votes r < int4_max \<and> (isHelpful \<longrightarrow> r_helpful_count r < int4_max))"

definition Review_markHelpful ::
  "db \<Rightarrow> nat \<Rightarrow> bool \<Rightarrow> (pg_error + review_row option) \<times> db" where
  "Review_markHelpful d reviewId isHelpful =
     (let hit = filter (\<lambda>r. r_id r = reviewId) (reviews d)
      in if list_ex (\<lambda>r. \<not> vote_fits isHelpful r) hit then (Inl numeric_value_out_of_range, d)
         else
           (Inr (rows0 (map (review_voted isHelpful) hit)),
            d\<lparr>reviews := map (\<lambda>r. if r_id r = reviewId then review_voted isHelpful r else r)
                             (reviews d)\<rparr>))"

text \<open>The operations of the Review model that write, and a run of them.\<close>

datatype review_op =
    Op_create nat string movie_source string string int
  | Op_update nat "string option" "string option" "int option"
  | Op_delete nat
  | Op_markHelpful nat bool

fun review_step :: "db \<Rightarrow> review_op \<Rightarrow> db" where
  "review_step d (Op_create userId movieId movieSource title content rating) =
     snd (Review_create d userId movieId movieSource title content rating)"
| "review_step d (Op_update rid title content rating) = snd (Review_update d rid title content rating)"
| "review_step d (Op_delete rid) = snd (Review_delete d rid)"
| "review_step d (Op_markHelpful rid isHelpful) = snd (Review_markHelpful d rid isHelpful)"

definition review_run :: "db \<Rightarrow> review_op list \<Rightarrow> db" where
  "review_run d ops = foldl review_step d ops"

text \<open>
  The keys of the table \<open>reviews\<close>: \<open>id\<close> is the primary key and comes from the
  sequence; \<open>(user_id, movie_id, movie_source)\<close> is unique.
\<close>

definition review_key :: "review_row \<Rightarrow> nat \<times> string \<times> movie_source" where
  "review_key r = (r_user_id r, r_movie_id r, r_movie_source r)"

definition reviews_keyed :: "db \<Rightarrow> bool" where
  "reviews_keyed d =
     (distinct (map r_id (reviews d)) \<and> distinct (map review_key (reviews d))
      \<and> list_all (\<lambda>r. r_id r \<le> reviews_id_seq d) (reviews d))"


text \<open>
  From one state of the table \<open>reviews\<close> to a later one: the sequence has not gone
  back, and every review of the later state either has a key that the sequence gave out
  in between, or was there before with counters that were not larger.
\<close>

definition counters_grow :: "db \<Rightarrow> db \<Rightarrow> bool" where
  "counters_grow d d' =
     (reviews_id_seq d \<le> reviews_id_seq d'
      \<and> list_all (\<lambda>r'. reviews_id_seq d < r_id r'
                   \<or> list_ex (\<lambda>r. r_id r = r_id r' \<and> r_helpful_count r \<le> r_helpful_count r'
                                  \<and> r_total_votes r \<le> r_total_votes r') (reviews d))
           (reviews d'))"

text \<open>
  \<open>Review.getMovieStats\<close>. The query
  \<^verbatim>\<open>
    SELECT COUNT(*) as total_reviews,
           AVG(rating::numeric) as average_rating,
           COUNT(CASE WHEN rating >= 7 THEN 1 END) * 100.0 / COUNT(*) as recommendation_percentage
    FROM reviews WHERE movie_id = $1 AND movie_source = $2
  \<close>
  is an aggregate without GROUP BY: it gives one row, also over no reviews, where
  \<open>AVG\<close> is NULL. The quotient is a division of numerics, which the store refuses
  when the divisor is zero. Numerics are taken as exact rationals.
\<close>

record stats_row =
  total_reviews :: nat
  average_rating :: "rat option"
  recommendation_percentage :: "rat option"

definition numeric_div :: "rat \<Rightarrow> rat \<Rightarrow> pg_error + rat" where
  "numeric_div a b = (if b = 0 then Inl division_by_zero else Inr (a / b))"

definition sql_avg :: "int list \<Rightarrow> rat option" where
  "sql_avg xs = (if xs = [] then None else Some (of_int (sum_list xs) / of_nat (length xs)))"

definition getMovieStats_query :: "db \<Rightarrow> string \<Rightarrow> movie_source \<Rightarrow> pg_error + stats_row" where
  "getMovieStats_query d movieId movieSource =
     (let matching = filter (\<lambda>r. r_movie_id r = movieId \<and> r_movie_source r = movieSource) (reviews d);
          liked = filter (\<lambda>r. 7 \<le> r_rating r) matching
      in case numeric_div (of_nat (length liked) * 100) (of_nat (length matching)) of
           Inl e \<Rightarrow> Inl e
         | Inr pct \<Rightarrow>
             Inr \<lparr>total_reviews = length matching,
                  average_rating = sql_avg (map r_rating matching),
                  recommendation_percentage = Some pct\<rparr>)"

text \<open>
  The object built from the row:
  \<^verbatim>\<open>
    totalReviews: parseInt(stats.total_reviews) || 0,
    averageRating: stats.average_rating ? parseFloat(stats.average_rating).toFixed(1) : '0.0',
    recommendationPercentage: stats.recommendation_percentage
        ? Math.round(parseFloat(stats.recommendation_percentage)) : 0
  \<close>
  \<open>toFixed1\<close> and \<open>Math_round\<close> stand for \<open>parseFloat(_).toFixed(1)\<close> and
  \<open>Math.round(parseFloat(_))\<close>, which work on floating-point numbers; they are
  parameters here. A rejected query rejects the call.
\<close>

record movie_stats =
  totalReviews :: nat
  averageRating :: string
  recommendationPercentage :: int

definition getMovieStats ::
  "(rat \<Rightarrow> string) \<Rightarrow> (rat \<Rightarrow> int) \<Rightarrow> db \<Rightarrow> string \<Rightarrow> movie_source \<Rightarrow> pg_error + movie_stats" where
  "getMovieStats toFixed1 Math_round d movieId movieSource =
     (case getMovieStats_query d movieId movieSource of
        Inl e \<Rightarrow> Inl e
      | Inr stats \<Rightarrow>
          Inr \<lparr>totalReviews = total_reviews stats,
               averageRating = (case average_rating stats of Some a \<Rightarrow> toFixed1 a | None \<Rightarrow> ''0.0''),
               recommendationPercentage =
                 (case recommendation_percentage stats of Some p \<Rightarrow> Math_round p | None \<Rightarrow> 0)\<rparr>)"

subsection \<open>Routes of the reviews\<close>

text \<open>
  The body of \<open>POST /api/reviews\<close> as \<open>reviewCreationValidation\<close> accepts it; an
  absent \<open>movieSource\<close> is \<open>'omdb'\<close>.
\<close>

record review_body =
  b_movieId :: string
  b_movieSource :: "movie_source option"
  b_title :: string
  b_content :: string
  b_rating :: int

definition reviewCreationValidation :: "review_body \<Rightarrow> bool" where
  "reviewCreationValidation b =
     (1 \<le> length (b_movieId b)
      \<and> 1 \<le> length (b_title b) \<and> length (b_title b) \<le> 255
      \<and> 10 \<le> length (b_content b) \<and> length (b_content b) \<le> 2000
      \<and> 1 \<le> b_rating b \<and> b_rating b \<le> 10)"

text \<open>
  \<open>POST /api/reviews\<close>, for the authenticated user \<open>req.user\<close>:
  \<^verbatim>\<open>
    const existingReview = await Review.findUserReviewForMovie(userId, movieId, movieSource);
    if (existingReview) { return res.status(409).json({ error: ... }); }
    const newReview = await Review.create({ ... });
    const reviewWithAuthor = await Review.findById(newReview.id);
    ... res.status(201).json(...)
    } catch (error) { res.status(500).json({ error: 'Failed to create review' }); }
  \<close>
  The reply carries the joined row; its rendering by \<open>transformToFrontendFormat\<close> is not
  modelled.
\<close>

definition post_review :: "db \<Rightarrow> user_row \<Rightarrow> review_body \<Rightarrow> (review_row \<times> user_row) reply \<times> db" where
  "post_review d req_user b =
     (if \<not> reviewCreationValidation b then (Failure 400 ''Validation failed'', d)
      else
        let movieSource = coalesce (b_movieSource b) omdb;
            userId = u_id req_user
        in case Review_findUserReviewForMovie d userId (b_movieId b) movieSource of
             Some existingReview \<Rightarrow>
               (Failure 409 ''You have already reviewed this movie. Use PUT to update your review.'', d)
           | None \<Rightarrow>
               (case Review_create d userId (b_movieId b) movieSource (b_title b) (b_content b) (b_rating b) of
                  (Inl e, d') \<Rightarrow> (Failure 500 ''Failed to create review'', d')
                | (Inr newReview, d') \<Rightarrow>
                    (case Review_findById d' (r_id newReview) of
                       None \<Rightarrow> (Failure 500 ''Failed to create review'', d')
                     | Some reviewWithAuthor \<Rightarrow> (Json 201 reviewWithAuthor, d'))))"

text \<open>
  \<open>POST /api/reviews/:id/helpful\<close>:
  \<^verbatim>\<open>
    const existingReview = await Review.findById(id);
    if (!existingReview) { return res.status(404).json({ error: 'Review not found' }); }
    // Users shouldn't be able to mark their own reviews as helpful
    if (existingReview.user_id === req.user.id) {
      return res.status(400).json({ error: 'You cannot mark your own review as helpful' });
    }
    const updatedReview = await Review.markHelpful(id, helpful);
    const reviewWithAuthor = await Review.findById(updatedReview.id);
    ...
    } catch (error) { res.status(500).json({ error: 'Failed to mark review as helpful' }); }
  \<close>
  The path parameter is taken as the integer that the store reads it as.
\<close>

definition post_helpful :: "db \<Rightarrow> user_row \<Rightarrow> nat \<Rightarrow> bool \<Rightarrow> (review_row \<times> user_row) reply \<times> db" where
  "post_helpful d req_user rid helpful =
     (case Review_findById d rid of
        None \<Rightarrow> (Failure 404 ''Review not found'', d)
      | Some (existingReview, author) \<Rightarrow>
          if r_user_id existingReview = u_id req_user
          then (Failure 400 ''You cannot mark your own review as helpful'', d)
          else
            (case Review_markHelpful d rid helpful of
               (Inl e, d') \<Rightarrow> (Failure 500 ''Failed to mark review as helpful'', d')
             | (Inr None, d') \<Rightarrow> (Failure 500 ''Failed to mark review as helpful'', d')
             | (Inr (Some updatedReview), d') \<Rightarrow>
                 (case Review_findById d' (r_id updatedReview) of
                    None \<Rightarrow> (Failure 500 ''Failed to mark review as helpful'', d')
                  | Some reviewWithAuthor \<Rightarrow> (Json 200 reviewWithAuthor, d'))))"

section \<open>Watchlist ledger\<close>

definition same_watch_key :: "nat \<Rightarrow> string \<Rightarrow> movie_source \<Rightarrow> watchlist_row \<Rightarrow> bool" where
  "same_watch_key userId movieId movieSource w =
     (w_user_id w = userId \<and> w_movie_id w = movieId \<and> w_movie_source w = movieSource)"

text \<open>
  The statement of \<open>Watchlist.add\<close>:
  \<^verbatim>\<open>
    INSERT INTO watchlists (user_id, movie_id, movie_source, movie_data)
    VALUES ($1, $2, $3, $4)
    ON CONFLICT (user_id, movie_id, movie_source) DO NOTHING
    RETURNING *
  \<close>
  under \<open>movie_id VARCHAR(50)\<close>, \<open>user_id INTEGER REFERENCES users(id)\<close> and
  \<open>UNIQUE(user_id, movie_id, movie_source)\<close>. It returns the rows it inserted.
\<close>

definition watchlists_insert ::
  "db \<Rightarrow> nat \<Rightarrow> string \<Rightarrow> movie_source \<Rightarrow> jsonb \<Rightarrow> (pg_error + watchlist_row list) \<times> db" where
  "watchlists_insert d userId movieId movieSource movieData =
     (let d1 = d\<lparr>watchlists_id_seq := Suc (watchlists_id_seq d)\<rparr>;
          row = \<lparr>w_id = watchlists_id_seq d1, w_user_id = userId, w_movie_id = movieId,
                 w_movie_source = movieSource, w_movie_data = movieData\<rparr>
      in if 50 < length movieId then (Inl string_data_right_truncation, d1)
         else if list_ex (same_watch_key userId movieId movieSource) (watchlists d) then (Inr [], d1)
         else if \<not> list_ex (\<lambda>u. u_id u = userId) (users d) then (Inl foreign_key_violation, d1)
         else (Inr [row], d1\<lparr>watchlists := watchlists d @ [row]\<rparr>))"

text \<open>
  \<open>Watchlist.add\<close>: \<open>return result.rows[0]\<close>, and
  \<^verbatim>\<open>
    } catch (error) {
      // Handle unique constraint violation gracefully
      if (error.code === '23505') { return null; // Already in watchlist }
      throw error;
    }
  \<close>
\<close>

definition Watchlist_add ::
  "db \<Rightarrow> nat \<Rightarrow> string \<Rightarrow> movie_source \<Rightarrow> jsonb \<Rightarrow> (pg_error + watchlist_row option) \<times> db" where
  "Watchlist_add d userId movieId movieSource movieData =
     (case watchlists_insert d userId movieId movieSource movieData of
        (Inr rows, d') \<Rightarrow> (Inr (rows0 rows), d')
      | (Inl e, d') \<Rightarrow> if e = unique_violation then (Inr None, d') else (Inl e, d'))"

text \<open>\<open>Watchlist.isInWatchlist\<close>: \<open>result.rows.length > 0\<close>.\<close>

definition Watchlist_isInWatchlist :: "db \<Rightarrow> nat \<Rightarrow> string \<Rightarrow> movie_source \<Rightarrow> bool" where
  "Watchlist_isInWatchlist d userId movieId movieSource =
     (0 < length (filter (same_watch_key userId movieId movieSource) (watchlists d)))"


text \<open>
  The keys and the column width of the table \<open>watchlists\<close>.
\<close>

definition watch_key :: "watchlist_row \<Rightarrow> nat \<times> string \<times> movie_source" where
  "watch_key w = (w_user_id w, w_movie_id w, w_movie_source w)"

definition watchlists_keyed :: "db \<Rightarrow> bool" where
  "watchlists_keyed d =
     (distinct (map watch_key (watchlists d))
      \<and> list_all (\<lambda>w. length (w_movie_id w) \<le> 50) (watchlists d))"

text \<open>
  \<open>POST /api/watchlist\<close>. \<open>movieDataValidation\<close> stands for the checks of
  \<open>addToWatchlistValidation\<close> on the JSON object \<open>movieData\<close> (an object with a
  title, and a poster that is a URL if given).
  \<^verbatim>\<open>
    const isAlreadyInWatchlist = await Watchlist.isInWatchlist(userId, movieId, movieSource);
    if (isAlreadyInWatchlist) {
      return res.status(409).json({ error: 'Movie is already in your watchlist' });
    }
    const watchlistItem = await Watchlist.add({ userId, movieId, movieSource, movieData });
    if (!watchlistItem) {
      return res.status(409).json({ error: 'Movie is already in your watchlist' });
    }
    ... res.status(201).json(...)
  \<close>
\<close>

record watchlist_body =
  wb_movieId :: string
  wb_movieSource :: "movie_source option"
  wb_movieData :: jsonb

definition post_watchlist ::
  "(jsonb \<Rightarrow> bool) \<Rightarrow> db \<Rightarrow> user_row \<Rightarrow> watchlist_body \<Rightarrow> watchlist_row reply \<times> db" where
  "post_watchlist movieDataValidation d req_user b =
     (if \<not> (1 \<le> length (wb_movieId b) \<and> movieDataValidation (wb_movieData b))
      then (Failure 400 ''Validation failed'', d)
      else
        let movieSource = coalesce (wb_movieSource b) omdb;
            userId = u_id req_user
        in if Watchlist_isInWatchlist d userId (wb_movieId b) movieSource
           then (Failure 409 ''Movie is already in your watchlist'', d)
           else
             (case Watchlist_add d userId (wb_movieId b) movieSource (wb_movieData b) of
                (Inl e, d') \<Rightarrow> (Failure 500 ''Failed to add movie to watchlist'', d')
              | (Inr None, d') \<Rightarrow> (Failure 409 ''Movie is already in your watchlist'', d')
              | (Inr (Some watchlistItem), d') \<Rightarrow> (Json 201 watchlistItem, d')))"

text \<open>
  \<open>Watchlist.checkMultipleInWatchlist\<close>: one query
  \<^verbatim>\<open>
    SELECT movie_id, movie_source FROM watchlists
    WHERE user_id = $1 AND ((movie_id = $2 AND movie_source = $3) OR ...)
  \<close>
  with one disjunct per queried movie, \<open>movie.movieSource || 'omdb'\<close> as its source, and
  \<^verbatim>\<open>
    result.rows.forEach(row => {
      const key = `${row.movie_id}_${row.movie_source}`;
      watchlistLookup[key] = true;
    });
  \<close>
\<close>

record movie_query =
  q_movieId :: string
  q_movieSource :: "movie_source option"

fun source_text :: "movie_source \<Rightarrow> string" where
  "source_text omdb = ''omdb''"
| "source_text custom = ''custom''"

definition lookup_key :: "string \<Rightarrow> movie_source \<Rightarrow> string" where
  "lookup_key movie_id movie_source = movie_id @ ''_'' @ source_text movie_source"

definition checkMultipleInWatchlist :: "db \<Rightarrow> nat \<Rightarrow> movie_query list \<Rightarrow> (string \<rightharpoonup> bool)" where
  "checkMultipleInWatchlist d userId movieList =
     (if movieList = [] then Map.empty
      else
        let rows = filter (\<lambda>w. w_user_id w = userId \<and>
                        list_ex (\<lambda>movie. w_movie_id w = q_movieId movie \<and>
                                   w_movie_source w = coalesce (q_movieSource movie) omdb) movieList)
                     (watchlists d)
        in foldl (\<lambda>watchlistLookup row.
                    watchlistLookup(lookup_key (w_movie_id row) (w_movie_source row) \<mapsto> True))
             Map.empty rows)"

text \<open>
  \<open>Watchlist.getPopularMovies\<close>:
  \<^verbatim>\<open>
    SELECT movie_id, movie_source, movie_data, COUNT(*) as watchlist_count
    FROM watchlists
    GROUP BY movie_id, movie_source, movie_data
    ORDER BY watchlist_count DESC
    LIMIT $1
  \<close>
  The query leaves the order of groups with equal counts open. \<open>popular_result\<close> holds of
  every answer the query allows; \<open>getPopularMovies\<close> computes the answer that keeps
  such groups in the order of their first entries.
\<close>

record popular_row =
  p_movie_id :: string
  p_movie_source :: movie_source
  p_movie_data :: jsonb
  p_watchlist_count :: nat

definition group_key :: "watchlist_row \<Rightarrow> string \<times> movie_source \<times> jsonb" where
  "group_key w = (w_movie_id w, w_movie_source w, w_movie_data w)"

definition group_row :: "watchlist_row list \<Rightarrow> string \<times> movie_source \<times> jsonb \<Rightarrow> popular_row" where
  "group_row ws k =
     (case k of (movie_id, movie_source, movie_data) \<Rightarrow>
        \<lparr>p_movie_id = movie_id, p_movie_source = movie_source, p_movie_data = movie_data,
         p_watchlist_count = length (filter (\<lambda>w. group_key w = k) ws)\<rparr>)"

definition first_occurrences :: "'a list \<Rightarrow> 'a list" where
  "first_occurrences xs = rev (remdups (rev xs))"

definition watch_groups :: "watchlist_row list \<Rightarrow> popular_row list" where
  "watch_groups ws = map (group_row ws) (first_occurrences (map group_key ws))"

definition popular_key :: "popular_row \<Rightarrow> string \<times> movie_source \<times> jsonb" where
  "popular_key g = (p_movie_id g, p_movie_source g, p_movie_data g)"

definition count_desc :: "popular_row \<Rightarrow> popular_row \<Rightarrow> bool" where
  "count_desc a b = (p_watchlist_count b \<le> p_watchlist_count a)"

definition popular_result :: "db \<Rightarrow> nat \<Rightarrow> popular_row list \<Rightarrow> bool" where
  "popular_result d limit res =
     (\<exists>gs. mset gs = mset (watch_groups (watchlists d)) \<and> sorted_wrt count_desc gs \<and> res = take limit gs)"

definition getPopularMovies :: "db \<Rightarrow> nat \<Rightarrow> popular_row list" where
  "getPopularMovies d limit =
     take limit (sort_key (\<lambda>g. - int (p_watchlist_count g)) (watch_groups (watchlists d)))"

section \<open>Combined search\<close>

text \<open>A row of the table \<open>movies\<close> as the driver returns it; a NULL is \<open>None\<close>.\<close>

record movie_row =
  m_id :: nat
  m_title :: string
  m_year :: "int option"
  m_runtime :: "string option"
  m_director :: "string option"
  m_cast_members :: "string list option"
  m_genre :: "string list option"
  m_plot :: "string option"
  m_poster :: "string option"
  m_imdb_rating :: "string option"
  m_language :: "string option"
  m_country :: "string option"
  m_awards :: "string option"
  m_box_office :: "string option"

text \<open>
  A movie in the provider's format. The entries of a search of the provider carry
  \<open>imdbID\<close>, \<open>Title\<close>, \<open>Year\<close>, \<open>Type\<close> and \<open>Poster\<close>; a property that an object
  does not have is \<open>None\<close>.
\<close>

record omdb_format =
  imdbID :: string
  Title :: string
  Year :: string
  Type :: "string option"
  Runtime :: "string option"
  Director :: "string option"
  Actors :: "string option"
  Genre :: "string option"
  Plot :: "string option"
  Poster :: "string option"
  imdbRating :: "string option"
  Language :: "string option"
  Country :: "string option"
  Awards :: "string option"
  BoxOffice :: "string option"
  Response :: "string option"
  Source :: "string option"

text \<open>\<open>x || ''\<close> on a string or NULL, and \<open>xs.join(', ')\<close>.\<close>

definition or_empty :: "string option \<Rightarrow> string" where
  "or_empty x = (case x of None \<Rightarrow> [] | Some s \<Rightarrow> s)"

fun join :: "string \<Rightarrow> string list \<Rightarrow> string" where
  "join sep [] = []"
| "join sep [x] = x"
| "join sep (x # y # ys) = x @ sep @ join sep (y # ys)"

text \<open>
  \<open>Movie.transformToOMDBFormat\<close>:
  \<^verbatim>\<open>
    imdbID: `custom_${movie.id}`,
    Title: movie.title,
    Year: movie.year?.toString() || '',
    Runtime: movie.runtime || '',
    Director: movie.director || '',
    Actors: Array.isArray(movie.cast_members) ? movie.cast_members.join(', ') : movie.cast_members || '',
    Genre: Array.isArray(movie.genre) ? movie.genre.join(', ') : movie.genre || '',
    ...
    Response: 'True',
    Source: 'custom'
  \<close>
\<close>

definition transformToOMDBFormat :: "movie_row \<Rightarrow> omdb_format" where
  "transformToOMDBFormat movie =
     \<lparr>imdbID = ''custom_'' @ nat_toString (m_id movie),
      Title = m_title movie,
      Year = (case m_year movie of None \<Rightarrow> [] | Some y \<Rightarrow> int_toString y),
      Type = None,
      Runtime = Some (or_empty (m_runtime movie)),
      Director = Some (or_empty (m_director movie)),
      Actors = Some (case m_cast_members movie of Some names \<Rightarrow> join '', '' names | None \<Rightarrow> []),
      Genre = Some (case m_genre movie of Some names \<Rightarrow> join '', '' names | None \<Rightarrow> []),
      Plot = Some (or_empty (m_plot movie)),
      Poster = Some (or_empty (m_poster movie)),
      imdbRating = Some (or_empty (m_imdb_rating movie)),
      Language = Some (or_empty (m_language movie)),
      Country = Some (or_empty (m_country movie)),
      Awards = Some (or_empty (m_awards movie)),
      BoxOffice = Some (or_empty (m_box_office movie)),
      Response = Some ''True'',
      Source = Some ''custom''\<rparr>"

text \<open>\<open>self.findIndex(p)\<close>: the index of the first element that satisfies \<open>p\<close>, or -1.\<close>

fun findIndex :: "('a \<Rightarrow> bool) \<Rightarrow> 'a list \<Rightarrow> int" where
  "findIndex p [] = - 1"
| "findIndex p (x # xs) =
     (if p x then 0 else (let i = findIndex p xs in if i < 0 then - 1 else i + 1))"

text \<open>\<open>self.filter((element, index, self) => ...)\<close>.\<close>

definition filter_indexed :: "('a \<Rightarrow> nat \<Rightarrow> 'a list \<Rightarrow> bool) \<Rightarrow> 'a list \<Rightarrow> 'a list" where
  "filter_indexed p self =
     map fst (filter (\<lambda>(element, index). p element index self) (zip self [0..<length self]))"

text \<open>
  The deduplication of \<open>GET /api/movies/search\<close>:
  \<^verbatim>\<open>
    const uniqueMovies = combinedMovies.filter((movie, index, self) =>
      index === self.findIndex(m =>
        m.Title.toLowerCase() === movie.Title.toLowerCase() &&
        m.Year === movie.Year
      )
    );
  \<close>
\<close>

definition same_title_year :: "(string \<Rightarrow> string) \<Rightarrow> omdb_format \<Rightarrow> omdb_format \<Rightarrow> bool" where
  "same_title_year unicode_lower movie m =
     (toLowerCase unicode_lower (Title m) = toLowerCase unicode_lower (Title movie)
      \<and> Year m = Year movie)"

text \<open>What the comparison reads of an entry: its title in lower case and its year string.\<close>

definition title_year :: "(string \<Rightarrow> string) \<Rightarrow> omdb_format \<Rightarrow> string \<times> string" where
  "title_year unicode_lower m = (toLowerCase unicode_lower (Title m), Year m)"

definition uniqueMovies :: "(string \<Rightarrow> string) \<Rightarrow> omdb_format list \<Rightarrow> omdb_format list" where
  "uniqueMovies unicode_lower combinedMovies =
     filter_indexed
       (\<lambda>movie index self. int index = findIndex (same_title_year unicode_lower movie) self)
       combinedMovies"

text \<open>
  \<open>parseInt(s)\<close>: leading white space is skipped, a sign is read, \<open>0x\<close> or \<open>0X\<close>
  selects radix 16, and the longest run of digits is the value; without a digit the
  result is NaN, here \<open>None\<close>.
\<close>

definition js_whitespace :: "char \<Rightarrow> bool" where
  "js_whitespace c = (c \<in> set [CHR '' '', CHR 0x09, CHR 0x0A, CHR 0x0B, CHR 0x0C, CHR 0x0D])"

definition digit_value :: "char \<Rightarrow> nat" where
  "digit_value c = length (takeWhile (\<lambda>x. x \<noteq> lower_char c) ''0123456789abcdef'')"

definition is_digit :: "nat \<Rightarrow> char \<Rightarrow> bool" where
  "is_digit radix c = (digit_value c < radix)"

definition digits_value :: "nat \<Rightarrow> string \<Rightarrow> nat" where
  "digits_value radix ds = foldl (\<lambda>acc c. acc * radix + digit_value c) 0 ds"

definition parseInt :: "string \<Rightarrow> int option" where
  "parseInt s =
     (let t = dropWhile js_whitespace s;
          (sign, u) = (case t of
                         c # r \<Rightarrow> if c = CHR ''-'' then (- 1, r) else if c = CHR ''+'' then (1, r) else (1, t)
                       | [] \<Rightarrow> (1, t));
          (radix, v) = (if startsWith u ''0x'' \<or> startsWith u ''0X'' then (16, drop 2 u) else (10, u));
          ds = takeWhile (is_digit radix) v
      in if ds = [] then None else Some (sign * int (digits_value radix ds)))"

text \<open>\<open>x.toString()\<close> on an integer or NaN.\<close>

definition number_toString :: "int option \<Rightarrow> string" where
  "number_toString x = (case x of None \<Rightarrow> ''NaN'' | Some i \<Rightarrow> int_toString i)"

text \<open>
  \<open>GET /api/movies/search\<close>, from the answers of \<open>OMDBService.searchMovies\<close> and
  \<open>Movie.search\<close>:
  \<^verbatim>\<open>
    const transformedCustomMovies = customResults.map(Movie.transformToOMDBFormat);
    const combinedMovies = [ ...(omdbResults.Search || []), ...transformedCustomMovies ];
    const uniqueMovies = ...
    res.json({
      Search: uniqueMovies,
      totalResults: (parseInt(omdbResults.totalResults) + customResults.length).toString(),
      Response: uniqueMovies.length > 0 ? 'True' : 'False',
      page: pageNum
    });
  \<close>
\<close>

record omdb_results =
  omdb_Search :: "omdb_format list"
  omdb_totalResults :: string
  omdb_Response :: string
  omdb_Error :: "string option"

record search_reply =
  res_Search :: "omdb_format list"
  res_totalResults :: string
  res_Response :: string
  res_page :: int

definition get_search ::
  "(string \<Rightarrow> string) \<Rightarrow> omdb_results \<Rightarrow> movie_row list \<Rightarrow> int \<Rightarrow> search_reply" where
  "get_search unicode_lower omdbResults customResults pageNum =
     (let transformedCustomMovies = map transformToOMDBFormat customResults;
          combinedMovies = omdb_Search omdbResults @ transformedCustomMovies;
          unique = uniqueMovies unicode_lower combinedMovies
      in \<lparr>res_Search = unique,
          res_totalResults =
            number_toString (map_option (\<lambda>total. total + int (length customResults))
                               (parseInt (omdb_totalResults omdbResults))),
          res_Response = (if 0 < length unique then ''True'' else ''False''),
          res_page = pageNum\<rparr>)"

text \<open>
  The deduplication in the words of the specification: walking the list from the left,
  an entry is kept unless an entry with the same title (ignoring case, as \<open>toLowerCase\<close>
  does) and the same year string has been seen before.
\<close>

fun dedup_seen ::
  "(string \<Rightarrow> string) \<Rightarrow> omdb_format list \<Rightarrow> omdb_format list \<Rightarrow> omdb_format list" where
  "dedup_seen unicode_lower seen [] = []"
| "dedup_seen unicode_lower seen (m # ms) =
     (if list_ex (\<lambda>s. same_title_year unicode_lower m s) seen then dedup_seen unicode_lower seen ms
      else m # dedup_seen unicode_lower (seen @ [m]) ms)"

definition dedup_first :: "(string \<Rightarrow> string) \<Rightarrow> omdb_format list \<Rightarrow> omdb_format list" where
  "dedup_first unicode_lower ms = dedup_seen unicode_lower [] ms"

section \<open>Example data\<close>

definition alice :: user_row where
  "alice = \<lparr>u_id = 1, u_email = ''alice@example.org'', u_name = ''Alice'', u_role = ''user''\<rparr>"

definition bob :: user_row where
  "bob = \<lparr>u_id = 2, u_email = ''bob@example.org'', u_name = ''Bob'', u_role = ''user''\<rparr>"

definition fresh_db :: db where
  "fresh_db = \<lparr>users = [alice, bob], reviews = [], watchlists = [],
                reviews_id_seq = 0, watchlists_id_seq = 0\<rparr>"

definition alice_review :: review_body where
  "alice_review = \<lparr>b_movieId = ''tt1160419'', b_movieSource = None, b_title = ''Sand'',
                   b_content = ''A long walk in the desert.'', b_rating = 8\<rparr>"

definition reviewed_db :: db where
  "reviewed_db = snd (post_review fresh_db alice alice_review)"

definition maxed_db :: db where
  "maxed_db =
     \<lparr>users = [alice, bob],
      reviews = [\<lparr>r_id = 1, r_user_id = 1, r_movie_id = ''tt1160419'', r_movie_source = omdb,
                  r_title = ''Sand'', r_content = ''A long walk in the desert.'', r_rating = 8,
                  r_helpful_count = 5, r_total_votes = 2147483647\<rparr>],
      watchlists = [], reviews_id_seq = 1, watchlists_id_seq = 0\<rparr>"

text \<open>A case mapping for the examples whose titles are ASCII strings.\<close>

definition no_unicode :: "string \<Rightarrow> string" where
  "no_unicode s = s"

definition dune_external :: omdb_format where
  "dune_external =
     \<lparr>imdbID = ''tt1160419'', Title = ''Dune'', Year = ''2021'', Type = Some ''movie'',
      Runtime = None, Director = None, Actors = None, Genre = None, Plot = None,
      Poster = Some ''N/A'', imdbRating = None, Language = None, Country = None, Awards = None,
      BoxOffice = None, Response = None, Source = None\<rparr>"

definition dune_local :: movie_row where
  "dune_local =
     \<lparr>m_id = 3, m_title = ''DUNE'', m_year = Some 2021, m_runtime = None, m_director = None,
      m_cast_members = None, m_genre = None, m_plot = None, m_poster = None,
      m_imdb_rating = None, m_language = None, m_country = None, m_awards = None,
      m_box_office = None\<rparr>"

definition dune_results :: omdb_results where
  "dune_results = \<lparr>omdb_Search = [dune_external], omdb_totalResults = ''1'',
                   omdb_Response = ''True'', omdb_Error = None\<rparr>"

text \<open>
  The Unicode case mapping on the characters up to U+00FF, for an example with an
  accented letter: besides A to Z, the capitals U+00C0 to U+00DE without the
  multiplication sign U+00D7, in UTF-8 the byte C3 followed by 80 to 9E without 97, go
  to the letter 32 places further.
\<close>

fun latin1_lower :: "string \<Rightarrow> string" where
  "latin1_lower [] = []"
| "latin1_lower [a] = [lower_char a]"
| "latin1_lower (a # b # cs) =
     (if a = CHR 0xC3 \<and> (0x80 :: nat) \<le> of_char b \<and> of_char b \<le> (0x9E :: nat) \<and> b \<noteq> CHR 0x97
      then a # char_of (of_char b + (0x20 :: nat)) # latin1_lower cs
      else lower_char a # latin1_lower (b # cs))"

definition amelie_external :: omdb_format where
  "amelie_external =
     dune_external\<lparr>imdbID := ''tt0211915'', Title := ''AM'' @ [CHR 0xC3, CHR 0x89] @ ''LIE'',
                    Year := ''2001''\<rparr>"

definition amelie_local :: movie_row where
  "amelie_local =
     dune_local\<lparr>m_id := 4, m_title := ''am'' @ [CHR 0xC3, CHR 0xA9] @ ''lie'', m_year := Some 2001\<rparr>"

definition amelie_results :: omdb_results where
  "amelie_results = \<lparr>omdb_Search = [amelie_external], omdb_totalResults = ''1'',
                     omdb_Response = ''True'', omdb_Error = None\<rparr>"

definition alice_entry :: watchlist_body where
  "alice_entry = \<lparr>wb_movieId = ''tt1160419'', wb_movieSource = None,
                  wb_movieData = ''{Title: Dune}''\<rparr>"

definition listed_db :: db where
  "listed_db = snd (post_watchlist (\<lambda>movieData. True) fresh_db alice alice_entry)"

definition popular_db :: db where
  "popular_db =
     fresh_db\<lparr>watchlists :=
       [\<lparr>w_id = 1, w_user_id = 1, w_movie_id = ''tt1160419'', w_movie_source = omdb,
         w_movie_data = ''{Title: Dune}''\<rparr>,
        \<lparr>w_id = 2, w_user_id = 2, w_movie_id = ''tt1160419'', w_movie_source = omdb,
         w_movie_data = ''{Title: Dune, Poster: N/A}''\<rparr>,
        \<lparr>w_id = 3, w_user_id = 1, w_movie_id = ''3'', w_movie_source = custom,
         w_movie_data = ''{Title: Solaris}''\<rparr>,
        \<lparr>w_id = 4, w_user_id = 2, w_movie_id = ''3'', w_movie_source = custom,
         w_movie_data = ''{Title: Solaris}''\<rparr>],
       watchlists_id_seq := 4\<rparr>"

section \<open>Properties\<close>

subsection \<open>String helpers\<close>

lemma startsWith_append [simp]: "startsWith (p @ s) p"
  by (simp add: startsWith_def)

lemma replace_first_prefix:
  "p \<noteq> [] \<Longrightarrow> replace_first p rep (p @ s) = rep @ s"
  by (cases p) (simp_all add: startsWith_def)

lemma replace_first_startsWith:
  "p \<noteq> [] \<Longrightarrow> startsWith s p \<Longrightarrow> replace_first p rep s = rep @ drop (length p) s"
  by (cases s) (simp_all add: startsWith_def)

lemma decode_cases:
  "decode ident =
     (if startsWith ident ''custom_'' then (custom, drop (length ''custom_'') ident)
      else (omdb, ident))"
  by (simp add: decode_def local_prefix_def replace_first_startsWith)

lemma decimal_digit_is_digit: "is_decimal_digit (decimal_digit d)"
proof -
  have "d mod 10 < length ''0123456789''" by simp
  then have "''0123456789'' ! (d mod 10) \<in> set ''0123456789''"
    by (rule nth_mem)
  then show ?thesis
    by (simp only: is_decimal_digit_def decimal_digit_def)
qed

lemma nat_toString_numeric: "numeric_key (nat_toString n)"
proof (induction n rule: nat_toString.induct)
  case (1 n)
  show ?case
  proof (cases "n < 10")
    case True
    then show ?thesis
      by (simp add: nat_toString.simps [of n] numeric_key_def decimal_digit_is_digit)
  next
    case False
    with 1 show ?thesis
      by (simp add: nat_toString.simps [of n] numeric_key_def decimal_digit_is_digit)
  qed
qed

subsection \<open>Round trip of the reference encoding\<close>



subsection \<open>Rows of a result\<close>

lemma rows0_Nil [simp]: "rows0 [] = None"
  by (simp add: rows0_def)

lemma rows0_Cons [simp]: "rows0 (x # xs) = Some x"
  by (simp add: rows0_def)


lemma rows0_filter_Some:
  "rows0 (filter P xs) = Some x \<Longrightarrow> x \<in> set xs \<and> P x"
proof -
  assume a: "rows0 (filter P xs) = Some x"
  then obtain ys where "filter P xs = x # ys"
    by (cases "filter P xs") simp_all
  then have "x \<in> set (filter P xs)" by simp
  then show ?thesis by simp
qed




lemma distinct_key_filter:
  assumes "distinct (map f xs)" and "x \<in> set xs"
  shows "filter (\<lambda>y. f y = f x) xs = [x]"
  using assms
proof (induction xs)
  case Nil
  then show ?case by simp
next
  case (Cons a xs)
  show ?case
  proof (cases "a = x")
    case True
    with Cons.prems have "f x \<notin> f ` set xs" by simp
    then have "\<forall>y \<in> set xs. f y \<noteq> f x" by (metis imageI)
    then have "filter (\<lambda>y. f y = f x) xs = []" by (simp add: filter_empty_conv)
    with True show ?thesis by simp
  next
    case False
    with Cons.prems have "x \<in> set xs" "f a \<noteq> f x" by auto
    with Cons show ?thesis by simp
  qed
qed



subsection \<open>Statistics of a movie without reviews\<close>

lemma getMovieStats_query_no_reviews:
  "filter (\<lambda>r. r_movie_id r = movieId \<and> r_movie_source r = movieSource) (reviews d) = []
   \<Longrightarrow> getMovieStats_query d movieId movieSource = Inl division_by_zero"
  by (simp add: getMovieStats_query_def numeric_div_def)

text \<open>
  Claim C2 says that \<open>getMovieStats\<close> on a movie without reviews returns zero values
  without failing. The code does not: the query divides by \<open>COUNT(*)\<close>, which is zero,
  and the store rejects it, so the call is rejected before the fallbacks
  \<open>|| 0\<close>, \<open>: '0.0'\<close> and \<open>: 0\<close> are reached.
\<close>

theorem getMovieStats_zero_reviews_fails:
  "\<not> list_ex (\<lambda>r. r_movie_id r = movieId \<and> r_movie_source r = movieSource) (reviews d)
   \<Longrightarrow> getMovieStats toFixed1 Math_round d movieId movieSource = Inl division_by_zero"
proof -
  assume "\<not> list_ex (\<lambda>r. r_movie_id r = movieId \<and> r_movie_source r = movieSource) (reviews d)"
  then have "filter (\<lambda>r. r_movie_id r = movieId \<and> r_movie_source r = movieSource) (reviews d) = []"
    by (simp add: list_ex_iff filter_empty_conv)
  then show ?thesis
    by (simp add: getMovieStats_def getMovieStats_query_no_reviews)
qed

theorem getMovieStats_zero_reviews_fails_witness:
  "getMovieStats (\<lambda>a. ''0.0'') (\<lambda>p. 0) fresh_db ''tt0111161'' omdb = Inl division_by_zero"
proof -
  have "\<not> list_ex (\<lambda>r. r_movie_id r = ''tt0111161'' \<and> r_movie_source r = omdb) (reviews fresh_db)"
    by (simp add: fresh_db_def)
  then show ?thesis by (rule getMovieStats_zero_reviews_fails)
qed

subsection \<open>A second review of the same movie\<close>



lemma reviewed_db_eq:
  "reviewed_db =
     \<lparr>users = [alice, bob],
      reviews = [\<lparr>r_id = 1, r_user_id = 1, r_movie_id = ''tt1160419'', r_movie_source = omdb,
                  r_title = ''Sand'', r_content = ''A long walk in the desert.'', r_rating = 8,
                  r_helpful_count = 0, r_total_votes = 0\<rparr>],
      watchlists = [], reviews_id_seq = 1, watchlists_id_seq = 0\<rparr>"
  by (simp add: reviewed_db_def post_review_def fresh_db_def alice_def bob_def alice_review_def
      reviewCreationValidation_def coalesce_def Review_findUserReviewForMovie_def
      reviews_join_users_def Review_create_def review_row_rejected_def Review_findById_def
      same_review_key_def Let_def)


subsection \<open>A vote on one's own review\<close>

text \<open>
  Claim C8. When the review that is voted on belongs to the authenticated user,
  \<open>POST /api/reviews/:id/helpful\<close> answers with status 400 and leaves the store as it
  was; in particular the counters of the review keep their values.
\<close>

theorem self_vote_rejected:
  assumes "Review_findById d rid = Some (review, author)"
    and "r_user_id review = u_id req_user"
  shows "post_helpful d req_user rid helpful =
           (Failure 400 ''You cannot mark your own review as helpful'', d)
         \<and> Review_findById (snd (post_helpful d req_user rid helpful)) rid = Some (review, author)"
  using assms by (simp add: post_helpful_def)

theorem self_vote_rejected_witness:
  "post_helpful reviewed_db alice 1 True =
     (Failure 400 ''You cannot mark your own review as helpful'', reviewed_db)"
proof -
  have f: "Review_findById reviewed_db 1 = Some (hd (reviews reviewed_db), alice)"
    by (simp add: reviewed_db_eq Review_findById_def reviews_join_users_def alice_def bob_def)
  have o: "r_user_id (hd (reviews reviewed_db)) = u_id alice"
    by (simp add: reviewed_db_eq alice_def)
  from self_vote_rejected [OF f o] show ?thesis by simp
qed

subsection \<open>Deduplication of the combined search\<close>

lemma same_title_year_iff: "same_title_year lc movie m \<longleftrightarrow> title_year lc m = title_year lc movie"
  by (simp add: same_title_year_def title_year_def)

lemma findIndex_found: "\<exists>x \<in> set xs. p x \<Longrightarrow> findIndex p xs = int (length (takeWhile (\<lambda>x. \<not> p x) xs))"
proof (induction xs)
  case Nil
  then show ?case by simp
next
  case (Cons a xs)
  show ?case
  proof (cases "p a")
    case True
    then show ?thesis by simp
  next
    case False
    with Cons.prems have "\<exists>x \<in> set xs. p x" by simp
    with Cons.IH have "findIndex p xs = int (length (takeWhile (\<lambda>x. \<not> p x) xs))" by simp
    with False show ?thesis by (simp add: Let_def)
  qed
qed

lemma findIndex_append_found:
  "\<exists>x \<in> set xs. p x \<Longrightarrow> findIndex p (xs @ ys) = findIndex p xs"
proof -
  assume a: "\<exists>x \<in> set xs. p x"
  then have "\<exists>x \<in> set (xs @ ys). p x" by auto
  then have "findIndex p (xs @ ys) = int (length (takeWhile (\<lambda>x. \<not> p x) (xs @ ys)))"
    by (rule findIndex_found)
  also from a obtain x where "x \<in> set xs" "\<not> \<not> p x" by auto
  then have "takeWhile (\<lambda>x. \<not> p x) (xs @ ys) = takeWhile (\<lambda>x. \<not> p x) xs"
    by (rule takeWhile_append1)
  finally show ?thesis using a by (simp add: findIndex_found)
qed

lemma findIndex_last:
  "p x \<Longrightarrow> findIndex p (xs @ [x]) = int (length xs) \<longleftrightarrow> (\<forall>y \<in> set xs. \<not> p y)"
proof
  assume px: "p x" and eq: "findIndex p (xs @ [x]) = int (length xs)"
  show "\<forall>y \<in> set xs. \<not> p y"
  proof (rule ccontr)
    assume "\<not> (\<forall>y \<in> set xs. \<not> p y)"
    then have ex: "\<exists>y \<in> set xs. p y" by simp
    then have "findIndex p (xs @ [x]) = int (length (takeWhile (\<lambda>x. \<not> p x) xs))"
      by (simp only: findIndex_append_found findIndex_found)
    moreover from ex have "length (takeWhile (\<lambda>x. \<not> p x) xs) < length xs"
      by (induction xs) auto
    ultimately show False using eq by simp
  qed
next
  assume px: "p x" and none: "\<forall>y \<in> set xs. \<not> p y"
  then have "takeWhile (\<lambda>x. \<not> p x) (xs @ [x]) = xs"
    by (simp add: takeWhile_append2)
  moreover from px have "findIndex p (xs @ [x]) = int (length (takeWhile (\<lambda>x. \<not> p x) (xs @ [x])))"
    by (intro findIndex_found) simp
  ultimately show "findIndex p (xs @ [x]) = int (length xs)" by simp
qed

lemma uniqueMovies_snoc:
  "uniqueMovies lc (xs @ [x]) =
     uniqueMovies lc xs @ (if \<exists>y \<in> set xs. title_year lc y = title_year lc x then [] else [x])"
proof -
  let ?P = "\<lambda>self (movie, index). int index = findIndex (same_title_year lc movie) self"
  have zip: "zip (xs @ [x]) [0..<length (xs @ [x])] = zip xs [0..<length xs] @ [(x, length xs)]"
    by simp
  have old: "filter (?P (xs @ [x])) (zip xs [0..<length xs]) = filter (?P xs) (zip xs [0..<length xs])"
  proof (rule filter_cong [OF refl])
    fix e assume "e \<in> set (zip xs [0..<length xs])"
    then obtain movie index where e: "e = (movie, index)" and "movie \<in> set xs"
      by (metis set_zip_leftD surj_pair)
    then have "\<exists>y \<in> set xs. same_title_year lc movie y"
      by (auto simp: same_title_year_iff)
    then have "findIndex (same_title_year lc movie) (xs @ [x]) = findIndex (same_title_year lc movie) xs"
      by (rule findIndex_append_found)
    with e show "?P (xs @ [x]) e = ?P xs e" by simp
  qed
  have last: "?P (xs @ [x]) (x, length xs) \<longleftrightarrow> \<not> (\<exists>y \<in> set xs. title_year lc y = title_year lc x)"
    using findIndex_last [of "same_title_year lc x" x xs]
    by (simp add: same_title_year_iff eq_commute [of "int (length xs)"])
  show ?thesis
    unfolding uniqueMovies_def filter_indexed_def zip
    using old last by (simp del: upt_Suc)
qed

lemma dedup_seen_snoc:
  "dedup_seen lc seen (ms @ [m]) =
     dedup_seen lc seen ms @ (if \<exists>y \<in> set (seen @ ms). title_year lc y = title_year lc m then [] else [m])"
proof (induction ms arbitrary: seen)
  case Nil
  then show ?case by (auto simp: list_ex_iff same_title_year_iff)
next
  case (Cons a ms)
  show ?case
  proof (cases "list_ex (\<lambda>s. same_title_year lc a s) seen")
    case True
    then have "\<exists>y \<in> set seen. title_year lc y = title_year lc a"
      by (simp add: list_ex_iff same_title_year_iff)
    then have "(\<exists>y \<in> set (seen @ a # ms). title_year lc y = title_year lc m)
        \<longleftrightarrow> (\<exists>y \<in> set (seen @ ms). title_year lc y = title_year lc m)"
      by auto
    with True Cons.IH [of seen] show ?thesis by simp
  next
    case False
    with Cons.IH [of "seen @ [a]"] show ?thesis by simp
  qed
qed

lemma uniqueMovies_dedup_first: "uniqueMovies lc xs = dedup_first lc xs"
proof (induction xs rule: rev_induct)
  case Nil
  then show ?case by (simp add: uniqueMovies_def filter_indexed_def dedup_first_def)
next
  case (snoc x xs)
  then show ?case
    by (simp add: uniqueMovies_snoc dedup_first_def dedup_seen_snoc)
qed

lemma find_append:
  "List.find P (xs @ ys) = (case List.find P xs of None \<Rightarrow> List.find P ys | Some x \<Rightarrow> Some x)"
  by (induction xs) simp_all

lemma filter_uniqueMovies:
  "filter (\<lambda>m. title_year lc m = k) (uniqueMovies lc xs) =
     (case List.find (\<lambda>m. title_year lc m = k) xs of None \<Rightarrow> [] | Some m \<Rightarrow> [m])"
proof (induction xs rule: rev_induct)
  case Nil
  then show ?case by (simp add: uniqueMovies_def filter_indexed_def)
next
  case (snoc x xs)
  show ?case
  proof (cases "List.find (\<lambda>m. title_year lc m = k) xs")
    case None
    then have "\<forall>y \<in> set xs. title_year lc y \<noteq> k" by (simp add: find_None_iff)
    with None snoc show ?thesis
      by (auto simp: uniqueMovies_snoc find_append)
  next
    case (Some a)
    then have "a \<in> set xs" "title_year lc a = k"
      by (auto simp: find_Some_iff)
    with Some snoc show ?thesis
      by (auto simp: uniqueMovies_snoc find_append)
  qed
qed

lemma subseq_uniqueMovies: "subseq (uniqueMovies lc xs) xs"
proof (induction xs rule: rev_induct)
  case Nil
  then show ?case by (simp add: uniqueMovies_def filter_indexed_def)
next
  case (snoc x xs)
  then show ?case
    by (auto simp: uniqueMovies_snoc intro: subseq_rev_drop_many list_emb_append_mono)
qed

lemma letter_table_keys:
  "distinct (map fst letter_table)" "distinct (map snd letter_table)"
  "set (map fst letter_table) \<inter> set (map snd letter_table) = {}"
  by (simp_all add: letter_table_def)

lemma letter_table_small: "(x, l) \<in> set letter_table \<Longrightarrow> (y, l) \<in> set letter_table \<Longrightarrow> x = y"
proof -
  assume a: "(x, l) \<in> set letter_table" and b: "(y, l) \<in> set letter_table"
  from letter_table_keys(2) have "inj_on snd (set letter_table)"
    by (simp add: distinct_map)
  from inj_onD [OF this _ a b] show "x = y" by simp
qed

lemma letter_table_apart: "(x, l) \<in> set letter_table \<Longrightarrow> (l, z) \<notin> set letter_table"
proof
  assume "(x, l) \<in> set letter_table" and "(l, z) \<in> set letter_table"
  then have "l \<in> set (map snd letter_table)" and "l \<in> set (map fst letter_table)"
    by force+
  with letter_table_keys(3) show False by blast
qed

lemma lower_char_eq_iff: "lower_char a = lower_char b \<longleftrightarrow> same_letter a b"
proof -
  note some = map_of_eq_Some_iff [OF letter_table_keys(1)]
  show ?thesis
  proof (cases "map_of letter_table a")
    case None
    note na = this
    then have a: "\<forall>l. (a, l) \<notin> set letter_table"
      by (metis some option.distinct(1))
    show ?thesis
    proof (cases "map_of letter_table b")
      case None
      then have "\<forall>l. (b, l) \<notin> set letter_table"
        by (metis some option.distinct(1))
      with a na None show ?thesis
        by (simp add: lower_char_def same_letter_def)
    next
      case (Some lb)
      then have b: "(b, lb) \<in> set letter_table" by (simp add: some)
      have "a = lb \<longleftrightarrow> (b, a) \<in> set letter_table"
        using b Some some by (metis option.inject)
      moreover from a b have "a \<noteq> b" by blast
      ultimately show ?thesis
        using a na Some by (simp add: lower_char_def same_letter_def)
    qed
  next
    case (Some la)
    note sa = this
    then have a: "(a, la) \<in> set letter_table" by (simp add: some)
    show ?thesis
    proof (cases "map_of letter_table b")
      case None
      then have b: "\<forall>l. (b, l) \<notin> set letter_table"
        by (metis some option.distinct(1))
      have "la = b \<longleftrightarrow> (a, b) \<in> set letter_table"
        using a sa some by (metis option.inject)
      moreover from a b have "a \<noteq> b" by blast
      ultimately show ?thesis
        using b sa None by (simp add: lower_char_def same_letter_def)
    next
      case (Some lb)
      then have b: "(b, lb) \<in> set letter_table" by (simp add: some)
      have "la = lb \<longleftrightarrow> a = b"
        using a b letter_table_small sa Some by (metis option.inject)
      moreover from b have "(a, b) \<notin> set letter_table"
        using letter_table_apart by blast
      moreover from a have "(b, a) \<notin> set letter_table"
        using letter_table_apart by blast
      ultimately show ?thesis
        using sa Some by (simp add: lower_char_def same_letter_def)
    qed
  qed
qed

lemma map_eq_iff_list_all2: "map f s = map f t \<longleftrightarrow> list_all2 (\<lambda>a b. f a = f b) s t"
proof (induction s arbitrary: t)
  case Nil
  then show ?case by simp
next
  case (Cons a s)
  then show ?case by (cases t) simp_all
qed

lemma toLowerCase_ascii:
  assumes "list_all is_ascii s" and "list_all is_ascii t"
  shows "toLowerCase lc s = toLowerCase lc t \<longleftrightarrow> equal_ignoring_case s t"
  using assms
  by (simp add: toLowerCase_def equal_ignoring_case_def map_eq_iff_list_all2 lower_char_eq_iff)

text \<open>
  Claim C3. The entries of the provider come first and the reformatted local entries
  after them; of the entries whose titles are the same under \<open>toLowerCase\<close> and whose
  year strings are the same only the first is kept, the others keep their order. In
  particular, when an entry of the provider and a local entry agree in title and year,
  exactly one entry with that title and year is returned, and it is one of the
  provider's. Two ASCII titles are the same under \<open>toLowerCase\<close> exactly when they differ
  at most in the case of their letters; for other titles the Unicode case mapping of the
  runtime decides, whatever it is.
\<close>

theorem search_keeps_first_occurrence:
  "let combined = omdb_Search omdbResults @ map transformToOMDBFormat customResults;
       found = res_Search (get_search lc omdbResults customResults pageNum)
   in found = dedup_first lc combined
      \<and> subseq found combined
      \<and> (\<forall>k. filter (\<lambda>m. title_year lc m = k) found =
               (case List.find (\<lambda>m. title_year lc m = k) combined of None \<Rightarrow> [] | Some m \<Rightarrow> [m]))
      \<and> (\<forall>e \<in> set (omdb_Search omdbResults). \<forall>l \<in> set customResults.
             title_year lc (transformToOMDBFormat l) = title_year lc e \<longrightarrow>
             (\<exists>e' \<in> set (omdb_Search omdbResults).
                filter (\<lambda>m. title_year lc m = title_year lc e) found = [e']))
      \<and> (\<forall>m m'. list_all is_ascii (Title m) \<and> list_all is_ascii (Title m') \<longrightarrow>
             (title_year lc m = title_year lc m' \<longleftrightarrow>
                equal_ignoring_case (Title m) (Title m') \<and> Year m = Year m'))"
proof -
  let ?ext = "omdb_Search omdbResults"
  let ?combined = "?ext @ map transformToOMDBFormat customResults"
  have found: "res_Search (get_search lc omdbResults customResults pageNum) = uniqueMovies lc ?combined"
    by (simp add: get_search_def Let_def)
  have external: "\<exists>e' \<in> set ?ext. filter (\<lambda>m. title_year lc m = title_year lc e) (uniqueMovies lc ?combined) = [e']"
    if "e \<in> set ?ext" for e
  proof -
    from that have "List.find (\<lambda>m. title_year lc m = title_year lc e) ?ext \<noteq> None"
      by (auto simp: find_None_iff)
    then obtain e' where e': "List.find (\<lambda>m. title_year lc m = title_year lc e) ?ext = Some e'"
      by auto
    then have "e' \<in> set ?ext"
      by (auto simp: find_Some_iff)
    moreover from e' have "filter (\<lambda>m. title_year lc m = title_year lc e) (uniqueMovies lc ?combined) = [e']"
      by (simp add: filter_uniqueMovies find_append)
    ultimately show ?thesis by blast
  qed
  have ascii: "title_year lc m = title_year lc m' \<longleftrightarrow>
      equal_ignoring_case (Title m) (Title m') \<and> Year m = Year m'"
    if "list_all is_ascii (Title m) \<and> list_all is_ascii (Title m')" for m m'
    using that by (simp add: title_year_def toLowerCase_ascii)
  have p1: "uniqueMovies lc ?combined = dedup_first lc ?combined"
    by (rule uniqueMovies_dedup_first)
  have p2: "subseq (uniqueMovies lc ?combined) ?combined"
    by (rule subseq_uniqueMovies)
  have p3: "\<forall>k. filter (\<lambda>m. title_year lc m = k) (uniqueMovies lc ?combined) =
      (case List.find (\<lambda>m. title_year lc m = k) ?combined of None \<Rightarrow> [] | Some m \<Rightarrow> [m])"
    by (intro allI filter_uniqueMovies)
  have p4: "\<forall>e \<in> set ?ext. \<forall>l \<in> set customResults.
      title_year lc (transformToOMDBFormat l) = title_year lc e \<longrightarrow>
      (\<exists>e' \<in> set ?ext. filter (\<lambda>m. title_year lc m = title_year lc e) (uniqueMovies lc ?combined) = [e'])"
    using external by blast
  have p5: "\<forall>m m'. list_all is_ascii (Title m) \<and> list_all is_ascii (Title m') \<longrightarrow>
      (title_year lc m = title_year lc m' \<longleftrightarrow>
         equal_ignoring_case (Title m) (Title m') \<and> Year m = Year m')"
    using ascii by blast
  show ?thesis
    unfolding Let_def found
    by (intro conjI) (rule p1 p2 p3 p4 p5)+
qed

theorem search_keeps_first_occurrence_witness:
  "Title (transformToOMDBFormat dune_local) = ''DUNE'' \<and> Title dune_external = ''Dune''
   \<and> equal_ignoring_case (Title (transformToOMDBFormat dune_local)) (Title dune_external)
   \<and> title_year no_unicode (transformToOMDBFormat dune_local) = title_year no_unicode dune_external
   \<and> res_Search (get_search no_unicode dune_results [dune_local] 1) = [dune_external]
   \<and> res_Search (get_search latin1_lower amelie_results [amelie_local] 1) = [amelie_external]"
proof -
  have t: "Title (transformToOMDBFormat dune_local) = ''DUNE''" "Title dune_external = ''Dune''"
    by (simp_all add: transformToOMDBFormat_def dune_local_def dune_external_def)
  have a: "list_all is_ascii (Title (transformToOMDBFormat dune_local))
      \<and> list_all is_ascii (Title dune_external)"
    by code_simp
  have c: "equal_ignoring_case (Title (transformToOMDBFormat dune_local)) (Title dune_external)"
    by code_simp
  have y: "Year (transformToOMDBFormat dune_local) = Year dune_external"
    by code_simp
  have s: "omdb_Search dune_results = [dune_external]"
    by (simp add: dune_results_def)
  note main = search_keeps_first_occurrence [of dune_results "[dune_local]" no_unicode 1]
  from main a c y
  have k: "title_year no_unicode (transformToOMDBFormat dune_local) = title_year no_unicode dune_external"
    unfolding Let_def by blast
  from main k s
  have "filter (\<lambda>m. title_year no_unicode m = title_year no_unicode dune_external)
          (res_Search (get_search no_unicode dune_results [dune_local] 1)) = [dune_external]"
    by (auto simp: Let_def)
  moreover have "filter (\<lambda>m. title_year no_unicode m = title_year no_unicode dune_external)
          (res_Search (get_search no_unicode dune_results [dune_local] 1))
        = res_Search (get_search no_unicode dune_results [dune_local] 1)"
    by code_simp
  moreover have "res_Search (get_search latin1_lower amelie_results [amelie_local] 1) = [amelie_external]"
    by code_simp
  ultimately show ?thesis using t c k by simp
qed

subsection \<open>The total of the combined search\<close>

lemma digit_table:
  "list_all (\<lambda>c. \<not> js_whitespace c \<and> c \<noteq> CHR ''-'' \<and> c \<noteq> CHR ''+'' \<and> c \<noteq> CHR ''x''
                \<and> c \<noteq> CHR ''X'' \<and> is_digit 10 c) ''0123456789''"
  by code_simp

lemma digit_facts:
  assumes "is_decimal_digit c"
  shows "\<not> js_whitespace c" "c \<noteq> CHR ''-''" "c \<noteq> CHR ''+''" "c \<noteq> CHR ''x''" "c \<noteq> CHR ''X''"
    "is_digit 10 c"
  using assms digit_table
  unfolding is_decimal_digit_def list_all_iff by blast+

lemma digit_value_table:
  "list_all (\<lambda>d. digit_value (decimal_digit d) = d) [0..<10]"
  by code_simp

lemma digit_value_decimal_digit: "digit_value (decimal_digit d) = d mod 10"
proof -
  have "d mod 10 \<in> set [0..<10]" by simp
  with digit_value_table have "digit_value (decimal_digit (d mod 10)) = d mod 10"
    unfolding list_all_iff by blast
  then show ?thesis by (simp add: decimal_digit_def)
qed

lemma digits_value_snoc: "digits_value radix (ds @ [c]) = digits_value radix ds * radix + digit_value c"
  by (simp add: digits_value_def)

lemma digits_value_nat_toString: "digits_value 10 (nat_toString n) = n"
proof (induction n rule: nat_toString.induct)
  case (1 n)
  show ?case
  proof (cases "n < 10")
    case True
    then show ?thesis
      by (simp add: nat_toString.simps [of n] digits_value_def digit_value_decimal_digit)
  next
    case False
    with 1 have "digits_value 10 (nat_toString (n div 10)) = n div 10" by simp
    with False show ?thesis
      by (simp add: nat_toString.simps [of n] digits_value_snoc digit_value_decimal_digit)
  qed
qed

lemma parseInt_numeric:
  assumes "numeric_key s"
  shows "parseInt s = Some (int (digits_value 10 s))"
proof -
  from assms obtain c cs where s: "s = c # cs" and c: "is_decimal_digit c"
    and cs: "list_all is_decimal_digit cs"
    by (cases s) (auto simp: numeric_key_def)
  from c have ws: "dropWhile js_whitespace s = s"
    by (simp add: s digit_facts)
  have nox: "\<not> startsWith s ''0x''" "\<not> startsWith s ''0X''"
  proof -
    show "\<not> startsWith s ''0x''"
    proof (cases cs)
      case Nil
      then show ?thesis by (simp add: s startsWith_def)
    next
      case (Cons b bs)
      with cs have "is_decimal_digit b" by simp
      then have "b \<noteq> CHR ''x''" by (rule digit_facts)
      with Cons show ?thesis by (simp add: s startsWith_def)
    qed
    show "\<not> startsWith s ''0X''"
    proof (cases cs)
      case Nil
      then show ?thesis by (simp add: s startsWith_def)
    next
      case (Cons b bs)
      with cs have "is_decimal_digit b" by simp
      then have "b \<noteq> CHR ''X''" by (rule digit_facts)
      with Cons show ?thesis by (simp add: s startsWith_def)
    qed
  qed
  from c cs have "\<forall>x \<in> set s. is_digit 10 x"
    by (auto simp: s list_all_iff digit_facts)
  then have tw: "takeWhile (is_digit 10) s = s"
    by (simp add: takeWhile_eq_all_conv)
  from c have sign: "c \<noteq> CHR ''-''" "c \<noteq> CHR ''+''"
    by (simp_all add: digit_facts)
  show ?thesis
    unfolding parseInt_def ws
    using nox tw sign by (simp add: s Let_def)
qed

lemma parseInt_nat_toString: "parseInt (nat_toString n) = Some (int n)"
  by (simp add: parseInt_numeric nat_toString_numeric digits_value_nat_toString)

text \<open>
  Claim C4. When the provider reports the total \<open>externalTotal\<close> (as its decimal
  numeral), the reply of the search reports \<open>externalTotal\<close> plus the number of local
  results of the page, whatever the deduplication removes; this is in general not the
  number of entries returned.
\<close>

theorem search_total_before_dedup:
  assumes "omdb_totalResults omdbResults = nat_toString externalTotal"
  shows "res_totalResults (get_search lc omdbResults customResults pageNum) =
           nat_toString (externalTotal + length customResults)
         \<and> (\<exists>r c p. res_totalResults (get_search lc r c p) \<noteq>
                       nat_toString (length (res_Search (get_search lc r c p))))"
proof -
  have "int_toString (int externalTotal + int (length customResults)) =
      nat_toString (externalTotal + length customResults)"
    by (simp add: int_toString_def nat_add_distrib)
  with assms have total: "res_totalResults (get_search lc omdbResults customResults pageNum) =
      nat_toString (externalTotal + length customResults)"
    by (simp add: get_search_def Let_def parseInt_nat_toString number_toString_def)
  have "res_totalResults (get_search lc dune_results [dune_local] 1) = ''2''"
    by code_simp
  moreover have "nat_toString (length (res_Search (get_search lc dune_results [dune_local] 1))) = ''1''"
    by code_simp
  ultimately have "res_totalResults (get_search lc dune_results [dune_local] 1) \<noteq>
      nat_toString (length (res_Search (get_search lc dune_results [dune_local] 1)))"
    by simp
  with total show ?thesis by blast
qed

theorem search_total_before_dedup_witness:
  "omdb_totalResults dune_results = nat_toString 1
   \<and> res_totalResults (get_search no_unicode dune_results [dune_local] 1) = ''2''
   \<and> length (res_Search (get_search no_unicode dune_results [dune_local] 1)) = 1"
proof -
  have h: "omdb_totalResults dune_results = nat_toString 1"
    by code_simp
  have two: "nat_toString (1 + length [dune_local]) = ''2''"
    by code_simp
  have one: "length (res_Search (get_search no_unicode dune_results [dune_local] 1)) = 1"
    by code_simp
  from search_total_before_dedup [OF h, of no_unicode "[dune_local]" 1] h two one
  show ?thesis by simp
qed

subsection \<open>Adding a movie twice to a watchlist\<close>




lemma listed_db_eq:
  "listed_db =
     \<lparr>users = [alice, bob], reviews = [],
      watchlists = [\<lparr>w_id = 1, w_user_id = 1, w_movie_id = ''tt1160419'', w_movie_source = omdb,
                     w_movie_data = ''{Title: Dune}''\<rparr>],
      reviews_id_seq = 0, watchlists_id_seq = 1\<rparr>"
  by (simp add: listed_db_def post_watchlist_def fresh_db_def alice_def bob_def alice_entry_def
      coalesce_def Watchlist_isInWatchlist_def Watchlist_add_def watchlists_insert_def
      same_watch_key_def Let_def)


subsection \<open>Membership of several movies in a watchlist\<close>

lemma lookup_key_inject:
  "lookup_key a s = lookup_key b t \<longleftrightarrow> a = b \<and> s = t"
proof
  assume eq: "lookup_key a s = lookup_key b t"
  have st: "s = t"
  proof (rule ccontr)
    assume "s \<noteq> t"
    then have "last (lookup_key a s) \<noteq> last (lookup_key b t)"
      by (cases s; cases t) (simp_all add: lookup_key_def)
    with eq show False by simp
  qed
  with eq have "a @ CHR ''_'' # source_text t = b @ CHR ''_'' # source_text t"
    by (simp add: lookup_key_def)
  then have "a = b" by simp
  with st show "a = b \<and> s = t" by simp
next
  assume "a = b \<and> s = t"
  then show "lookup_key a s = lookup_key b t" by simp
qed

lemma lookup_foldl:
  "foldl (\<lambda>lookup row. lookup(f row \<mapsto> True)) m rows k =
     (if \<exists>row \<in> set rows. f row = k then Some True else m k)"
  by (induction rows arbitrary: m) auto

lemma checkMultiple_lookup:
  "checkMultipleInWatchlist d userId movieList k =
     (if \<exists>w \<in> set (watchlists d). \<exists>q \<in> set movieList.
           same_watch_key userId (q_movieId q) (coalesce (q_movieSource q) omdb) w
           \<and> lookup_key (w_movie_id w) (w_movie_source w) = k
      then Some True else None)"
proof (cases "movieList = []")
  case True
  then show ?thesis by (simp add: checkMultipleInWatchlist_def)
next
  case False
  let ?hit = "\<lambda>w. w_user_id w = userId \<and>
      list_ex (\<lambda>movie. w_movie_id w = q_movieId movie \<and>
                 w_movie_source w = coalesce (q_movieSource movie) omdb) movieList"
  have "(\<exists>row \<in> set (filter ?hit (watchlists d)).
           lookup_key (w_movie_id row) (w_movie_source row) = k)
      \<longleftrightarrow> (\<exists>w \<in> set (watchlists d). \<exists>q \<in> set movieList.
           same_watch_key userId (q_movieId q) (coalesce (q_movieSource q) omdb) w
           \<and> lookup_key (w_movie_id w) (w_movie_source w) = k)"
    unfolding list_ex_iff same_watch_key_def set_filter by blast
  with False show ?thesis
    unfolding checkMultipleInWatchlist_def Let_def lookup_foldl by simp
qed

text \<open>
  Claim C9. The lookup that \<open>checkMultipleInWatchlist\<close> returns holds \<open>true\<close> under the
  key of a queried reference exactly when the user has a watchlist entry for that
  reference; every key it holds is the key of a queried reference with an entry, and it
  holds no other value than \<open>true\<close>.
\<close>

theorem checkMultiple_membership:
  "(\<forall>q \<in> set movieList.
      checkMultipleInWatchlist d userId movieList
        (lookup_key (q_movieId q) (coalesce (q_movieSource q) omdb)) =
      (if list_ex (same_watch_key userId (q_movieId q) (coalesce (q_movieSource q) omdb)) (watchlists d)
       then Some True else None))
   \<and> (\<forall>k. checkMultipleInWatchlist d userId movieList k \<noteq> None \<longrightarrow>
          (\<exists>q \<in> set movieList.
             k = lookup_key (q_movieId q) (coalesce (q_movieSource q) omdb)
             \<and> list_ex (same_watch_key userId (q_movieId q) (coalesce (q_movieSource q) omdb))
                  (watchlists d)))
   \<and> (\<forall>k. checkMultipleInWatchlist d userId movieList k \<noteq> Some False)"
proof (intro conjI ballI allI impI)
  fix q assume q: "q \<in> set movieList"
  let ?src = "coalesce (q_movieSource q) omdb"
  have "(\<exists>w \<in> set (watchlists d). \<exists>q' \<in> set movieList.
           same_watch_key userId (q_movieId q') (coalesce (q_movieSource q') omdb) w
           \<and> lookup_key (w_movie_id w) (w_movie_source w) = lookup_key (q_movieId q) ?src)
        \<longleftrightarrow> list_ex (same_watch_key userId (q_movieId q) ?src) (watchlists d)"
    (is "?L \<longleftrightarrow> ?R")
  proof
    assume ?L
    then obtain w q' where w: "w \<in> set (watchlists d)" "w_user_id w = userId"
      and k: "lookup_key (w_movie_id w) (w_movie_source w) = lookup_key (q_movieId q) ?src"
      by (auto simp: same_watch_key_def)
    from k have "w_movie_id w = q_movieId q" "w_movie_source w = ?src"
      by (simp_all add: lookup_key_inject)
    with w show ?R by (auto simp: list_ex_iff same_watch_key_def)
  next
    assume ?R
    then obtain w where w: "w \<in> set (watchlists d)" "same_watch_key userId (q_movieId q) ?src w"
      by (auto simp: list_ex_iff)
    then have "lookup_key (w_movie_id w) (w_movie_source w) = lookup_key (q_movieId q) ?src"
      by (simp add: same_watch_key_def)
    with q w show ?L by blast
  qed
  then show "checkMultipleInWatchlist d userId movieList (lookup_key (q_movieId q) ?src) =
      (if list_ex (same_watch_key userId (q_movieId q) ?src) (watchlists d) then Some True else None)"
    by (simp only: checkMultiple_lookup)
next
  fix k assume "checkMultipleInWatchlist d userId movieList k \<noteq> None"
  then obtain w q where w: "w \<in> set (watchlists d)" and q: "q \<in> set movieList"
    and key: "same_watch_key userId (q_movieId q) (coalesce (q_movieSource q) omdb) w"
    and k: "lookup_key (w_movie_id w) (w_movie_source w) = k"
    unfolding checkMultiple_lookup by (auto split: if_splits)
  from key k have "k = lookup_key (q_movieId q) (coalesce (q_movieSource q) omdb)"
    by (simp add: same_watch_key_def)
  moreover from w key
  have "list_ex (same_watch_key userId (q_movieId q) (coalesce (q_movieSource q) omdb)) (watchlists d)"
    by (auto simp: list_ex_iff)
  ultimately show "\<exists>q \<in> set movieList.
      k = lookup_key (q_movieId q) (coalesce (q_movieSource q) omdb)
      \<and> list_ex (same_watch_key userId (q_movieId q) (coalesce (q_movieSource q) omdb)) (watchlists d)"
    using q by blast
next
  fix k show "checkMultipleInWatchlist d userId movieList k \<noteq> Some False"
    by (simp add: checkMultiple_lookup)
qed

theorem checkMultiple_membership_witness:
  "checkMultipleInWatchlist listed_db 1
      [\<lparr>q_movieId = ''tt1160419'', q_movieSource = None\<rparr>,
       \<lparr>q_movieId = ''3'', q_movieSource = Some custom\<rparr>] ''tt1160419_omdb'' = Some True
   \<and> checkMultipleInWatchlist listed_db 1
      [\<lparr>q_movieId = ''tt1160419'', q_movieSource = None\<rparr>,
       \<lparr>q_movieId = ''3'', q_movieSource = Some custom\<rparr>] ''3_custom'' = None"
proof -
  let ?qs = "[\<lparr>q_movieId = ''tt1160419'', q_movieSource = None\<rparr>,
              \<lparr>q_movieId = ''3'', q_movieSource = Some custom\<rparr>]"
  from checkMultiple_membership [of ?qs listed_db 1]
  have "\<forall>q \<in> set ?qs.
      checkMultipleInWatchlist listed_db 1 ?qs
        (lookup_key (q_movieId q) (coalesce (q_movieSource q) omdb)) =
      (if list_ex (same_watch_key 1 (q_movieId q) (coalesce (q_movieSource q) omdb)) (watchlists listed_db)
       then Some True else None)"
    by blast
  then show ?thesis
    by (simp add: listed_db_eq lookup_key_def coalesce_def same_watch_key_def)
qed

subsection \<open>Popular movies\<close>

lemma set_first_occurrences [simp]: "set (first_occurrences xs) = set xs"
  by (simp add: first_occurrences_def)

lemma distinct_first_occurrences [simp]: "distinct (first_occurrences xs)"
  by (simp add: first_occurrences_def)

lemma popular_key_group_row [simp]: "popular_key (group_row ws k) = k"
  by (simp add: popular_key_def group_row_def split: prod.splits)

lemma count_group_row [simp]:
  "p_watchlist_count (group_row ws k) = length (filter (\<lambda>w. group_key w = k) ws)"
  by (simp add: group_row_def split: prod.splits)

lemma keys_watch_groups: "map popular_key (watch_groups ws) = first_occurrences (map group_key ws)"
  by (simp add: watch_groups_def comp_def)

lemma length_watch_groups: "length (watch_groups ws) = card (group_key ` set ws)"
proof -
  have "length (watch_groups ws) = length (first_occurrences (map group_key ws))"
    by (simp add: watch_groups_def)
  also have "\<dots> = card (set (first_occurrences (map group_key ws)))"
    by (rule distinct_card [symmetric]) simp
  finally show ?thesis by simp
qed

lemma watch_groups_row:
  assumes "g \<in> set (watch_groups ws)"
  shows "0 < p_watchlist_count g
     \<and> p_watchlist_count g = length (filter (\<lambda>w. group_key w = popular_key g) ws)"
proof -
  from assms obtain w where w: "w \<in> set ws" and g: "g = group_row ws (group_key w)"
    by (auto simp: watch_groups_def)
  from w have "filter (\<lambda>x. group_key x = group_key w) ws \<noteq> []"
    by (auto simp: filter_empty_conv)
  with g show ?thesis by simp
qed

lemma watch_groups_has:
  "w \<in> set ws \<Longrightarrow> \<exists>g \<in> set (watch_groups ws). popular_key g = group_key w"
  by (auto simp: watch_groups_def)

lemma getPopularMovies_allowed: "popular_result d limit (getPopularMovies d limit)"
proof -
  let ?f = "\<lambda>g. - int (p_watchlist_count g)"
  let ?gs = "sort_key ?f (watch_groups (watchlists d))"
  have "sorted (map ?f ?gs)" by (rule sorted_sort_key)
  then have "sorted_wrt count_desc ?gs"
    by (simp add: sorted_map count_desc_def [abs_def])
  moreover have "mset ?gs = mset (watch_groups (watchlists d))" by simp
  ultimately show ?thesis
    unfolding popular_result_def getPopularMovies_def by blast
qed

lemma popular_result_props:
  assumes "popular_result d limit res"
  shows "length res = min limit (card (group_key ` set (watchlists d)))"
    and "sorted_wrt count_desc res"
    and "distinct (map popular_key res)"
    and "set res \<subseteq> set (watch_groups (watchlists d))"
    and "card (group_key ` set (watchlists d)) \<le> limit \<Longrightarrow> set res = set (watch_groups (watchlists d))"
proof -
  let ?G = "watch_groups (watchlists d)"
  from assms obtain gs where m: "mset gs = mset ?G" and s: "sorted_wrt count_desc gs"
    and r: "res = take limit gs"
    unfolding popular_result_def by blast
  from m have len: "length gs = length ?G" by (rule mset_eq_length)
  from m have set: "set gs = set ?G" by (rule mset_eq_setD)
  from len r show "length res = min limit (card (group_key ` set (watchlists d)))"
    by (simp add: length_watch_groups min.commute)
  from s r show "sorted_wrt count_desc res" by (simp add: sorted_wrt_take)
  from m have "mset (map popular_key gs) = mset (map popular_key ?G)" by simp
  then have "distinct (map popular_key gs) \<longleftrightarrow> distinct (map popular_key ?G)"
    by (rule mset_eq_imp_distinct_iff)
  then have "distinct (map popular_key gs)" by (simp add: keys_watch_groups)
  then have "distinct (take limit (map popular_key gs))" by (rule distinct_take)
  with r show "distinct (map popular_key res)" by (simp add: take_map)
  from r set show "set res \<subseteq> set ?G" by (auto dest: in_set_takeD)
  show "set res = set ?G" if "card (group_key ` set (watchlists d)) \<le> limit"
  proof -
    from that len have "length gs \<le> limit" by (simp add: length_watch_groups)
    with r set show ?thesis by simp
  qed
qed

text \<open>
  Claim C10. Every answer of \<open>getPopularMovies\<close> has at most \<open>limit\<close> rows (all groups
  when \<open>limit\<close> allows it), in descending order of their counts, one row for each triple
  of movie identifier, origin and stored snapshot, and the count of a row is the number
  of entries with exactly that triple. So two entries for the same reference with
  different snapshots stand in two different rows. The function \<open>getPopularMovies\<close>
  computes one of the answers.
\<close>

theorem popular_groups_by_snapshot:
  "popular_result d limit (getPopularMovies d limit)
   \<and> (\<forall>res. popular_result d limit res \<longrightarrow>
         length res \<le> limit
         \<and> length res = min limit (card (group_key ` set (watchlists d)))
         \<and> sorted_wrt count_desc res
         \<and> distinct (map popular_key res)
         \<and> (\<forall>g \<in> set res.
               0 < p_watchlist_count g
               \<and> p_watchlist_count g =
                   length (filter (\<lambda>w. group_key w = popular_key g) (watchlists d)))
         \<and> (\<forall>w1 \<in> set (watchlists d). \<forall>w2 \<in> set (watchlists d).
               w_movie_id w1 = w_movie_id w2 \<and> w_movie_source w1 = w_movie_source w2
               \<and> w_movie_data w1 \<noteq> w_movie_data w2
               \<and> card (group_key ` set (watchlists d)) \<le> limit \<longrightarrow>
               (\<exists>g1 \<in> set res. \<exists>g2 \<in> set res.
                  g1 \<noteq> g2 \<and> popular_key g1 = group_key w1 \<and> popular_key g2 = group_key w2)))"
proof (intro conjI allI impI ballI)
  show "popular_result d limit (getPopularMovies d limit)"
    by (rule getPopularMovies_allowed)
next
  fix res assume r: "popular_result d limit res"
  from popular_result_props(1) [OF r] show "length res \<le> limit" by simp
  from popular_result_props(1) [OF r]
  show "length res = min limit (card (group_key ` set (watchlists d)))" .
  from popular_result_props(2) [OF r] show "sorted_wrt count_desc res" .
  from popular_result_props(3) [OF r] show "distinct (map popular_key res)" .
  {
    fix g assume "g \<in> set res"
    with popular_result_props(4) [OF r] have g: "g \<in> set (watch_groups (watchlists d))"
      by blast
    from watch_groups_row [OF g] show "0 < p_watchlist_count g" by (rule conjunct1)
    from watch_groups_row [OF g]
    show "p_watchlist_count g = length (filter (\<lambda>w. group_key w = popular_key g) (watchlists d))"
      by (rule conjunct2)
  }
  {
    fix w1 w2
    assume w: "w1 \<in> set (watchlists d)" "w2 \<in> set (watchlists d)"
      and h: "w_movie_id w1 = w_movie_id w2 \<and> w_movie_source w1 = w_movie_source w2
        \<and> w_movie_data w1 \<noteq> w_movie_data w2
        \<and> card (group_key ` set (watchlists d)) \<le> limit"
    from h have all: "set res = set (watch_groups (watchlists d))"
      by (simp add: popular_result_props(5) [OF r])
    from h have ne: "group_key w1 \<noteq> group_key w2" by (simp add: group_key_def)
    from w(1) all obtain g1 where g1: "g1 \<in> set res" "popular_key g1 = group_key w1"
      using watch_groups_has by blast
    from w(2) all obtain g2 where g2: "g2 \<in> set res" "popular_key g2 = group_key w2"
      using watch_groups_has by blast
    from g1 g2 ne have "g1 \<noteq> g2" by auto
    with g1 g2
    show "\<exists>g1 \<in> set res. \<exists>g2 \<in> set res.
        g1 \<noteq> g2 \<and> popular_key g1 = group_key w1 \<and> popular_key g2 = group_key w2"
      by blast
  }
qed

theorem popular_groups_by_snapshot_witness:
  "popular_result popular_db 10 (getPopularMovies popular_db 10)
   \<and> length (getPopularMovies popular_db 10) \<le> 10
   \<and> sorted_wrt count_desc (getPopularMovies popular_db 10)
   \<and> map (\<lambda>g. (p_movie_id g, p_movie_data g, p_watchlist_count g)) (getPopularMovies popular_db 10) =
       [(''3'', ''{Title: Solaris}'', 2), (''tt1160419'', ''{Title: Dune}'', 1),
        (''tt1160419'', ''{Title: Dune, Poster: N/A}'', 1)]"
proof -
  have rows: "map (\<lambda>g. (p_movie_id g, p_movie_data g, p_watchlist_count g))
      (getPopularMovies popular_db 10) =
       [(''3'', ''{Title: Solaris}'', 2), (''tt1160419'', ''{Title: Dune}'', 1),
        (''tt1160419'', ''{Title: Dune, Poster: N/A}'', 1)]"
    by code_simp
  from popular_groups_by_snapshot [of popular_db 10]
  have "popular_result popular_db 10 (getPopularMovies popular_db 10)"
    and "length (getPopularMovies popular_db 10) \<le> 10"
    and "sorted_wrt count_desc (getPopularMovies popular_db 10)"
    by blast+
  with rows show ?thesis by simp
qed

subsection \<open>Votes on a review\<close>

lemma r_id_review_voted [simp]: "r_id (review_voted h r) = r_id r"
  by (simp add: review_voted_def)

lemma r_id_review_updated [simp]: "r_id (review_updated t c g r) = r_id r"
  by (simp add: review_updated_def)

lemma counters_grow_refl: "counters_grow d d"
  by (auto simp: counters_grow_def list_all_iff list_ex_iff)

lemma counters_grow_trans:
  assumes "counters_grow a b" and "counters_grow b c"
  shows "counters_grow a c"
proof -
  have "reviews_id_seq a < r_id z
      \<or> (\<exists>x \<in> set (reviews a). r_id x = r_id z \<and> r_helpful_count x \<le> r_helpful_count z
            \<and> r_total_votes x \<le> r_total_votes z)"
    if z: "z \<in> set (reviews c)" for z
  proof -
    from assms(2) z consider "reviews_id_seq b < r_id z"
      | y where "y \<in> set (reviews b)" "r_id y = r_id z" "r_helpful_count y \<le> r_helpful_count z"
          "r_total_votes y \<le> r_total_votes z"
      by (auto simp: counters_grow_def list_all_iff list_ex_iff)
    then show ?thesis
    proof cases
      case 1
      with assms(1) show ?thesis by (auto simp: counters_grow_def)
    next
      case 2
      from assms(1) 2(1) consider "reviews_id_seq a < r_id y"
        | x where "x \<in> set (reviews a)" "r_id x = r_id y" "r_helpful_count x \<le> r_helpful_count y"
            "r_total_votes x \<le> r_total_votes y"
        by (auto simp: counters_grow_def list_all_iff list_ex_iff)
      then show ?thesis
      proof cases
        case 1
        with 2 show ?thesis by simp
      next
        case (2 x)
        with \<open>r_id y = r_id z\<close> \<open>r_helpful_count y \<le> r_helpful_count z\<close>
          \<open>r_total_votes y \<le> r_total_votes z\<close>
        have "r_id x = r_id z \<and> r_helpful_count x \<le> r_helpful_count z
            \<and> r_total_votes x \<le> r_total_votes z"
          by simp
        with 2(1) show ?thesis by blast
      qed
    qed
  qed
  moreover from assms have "reviews_id_seq a \<le> reviews_id_seq c"
    by (simp add: counters_grow_def)
  ultimately show ?thesis
    by (simp add: counters_grow_def list_all_iff list_ex_iff)
qed

lemma counters_grow_create:
  "counters_grow d (snd (Review_create d userId movieId movieSource title content rating))"
  by (auto simp: Review_create_def Let_def counters_grow_def list_all_iff list_ex_iff
      split: option.splits)

lemma counters_grow_update: "counters_grow d (snd (Review_update d rid title content rating))"
  by (auto simp: Review_update_def Let_def counters_grow_def list_all_iff list_ex_iff
      review_updated_def split: option.splits)

lemma counters_grow_delete: "counters_grow d (snd (Review_delete d rid))"
  by (auto simp: Review_delete_def counters_grow_def list_all_iff list_ex_iff)

lemma counters_grow_markHelpful: "counters_grow d (snd (Review_markHelpful d rid isHelpful))"
proof (cases "list_ex (\<lambda>r. \<not> vote_fits isHelpful r) (filter (\<lambda>r. r_id r = rid) (reviews d))")
  case True
  then show ?thesis by (simp add: Review_markHelpful_def counters_grow_refl)
next
  case False
  then show ?thesis
    by (auto simp: Review_markHelpful_def counters_grow_def list_all_iff list_ex_iff
        review_voted_def)
qed

lemma counters_grow_step: "counters_grow d (review_step d op)"
  by (cases op)
    (simp_all add: counters_grow_create counters_grow_update counters_grow_delete
      counters_grow_markHelpful)

lemma counters_grow_run: "counters_grow d (review_run d ops)"
proof (induction ops arbitrary: d)
  case Nil
  then show ?case by (simp add: review_run_def counters_grow_refl)
next
  case (Cons op ops)
  have "counters_grow d (review_step d op)" by (rule counters_grow_step)
  moreover from Cons have "counters_grow (review_step d op) (review_run (review_step d op) ops)" .
  ultimately have "counters_grow d (review_run (review_step d op) ops)"
    by (rule counters_grow_trans)
  then show ?case by (simp add: review_run_def)
qed

text \<open>
  Claim C7 says that every call of \<open>markHelpful\<close> on an existing review raises
  \<open>total_votes\<close> by exactly one. At the largest INTEGER it does not: the update is
  refused and the counter stays. Here the review of the table has \<open>total_votes\<close>
  2147483647.
\<close>

theorem markHelpful_at_int4_max:
  "reviews_keyed maxed_db
   \<and> map r_id (reviews maxed_db) = [1]
   \<and> fst (Review_markHelpful maxed_db 1 False) = Inl numeric_value_out_of_range
   \<and> map r_total_votes (reviews maxed_db) = [2147483647]
   \<and> map r_total_votes (reviews (snd (Review_markHelpful maxed_db 1 False))) = [2147483647]"
  by (simp add: maxed_db_def reviews_keyed_def review_key_def Review_markHelpful_def
      vote_fits_def review_voted_def int4_max_def)

text \<open>
  Claim C7, amended. For a review \<open>r\<close> of the table whose counters stay within
  2147483647 under the vote, \<open>markHelpful\<close> on its key returns and stores the review with
  \<open>total_votes\<close> raised by one and \<open>helpful_count\<close> raised by one when \<open>isHelpful\<close> holds
  and by nothing otherwise; when a counter would pass 2147483647, the call is refused and
  the store is left as it was. After any run of the writing operations of the Review
  model (create, update, delete, markHelpful), a review with the key of \<open>r\<close> has
  counters that are not below those of \<open>r\<close>.
\<close>

theorem markHelpful_counts:
  assumes keyed: "reviews_keyed d" and r: "r \<in> set (reviews d)"
  shows "(r_total_votes r < 2147483647 \<and> (isHelpful \<longrightarrow> r_helpful_count r < 2147483647) \<longrightarrow>
           (\<exists>r'. fst (Review_markHelpful d (r_id r) isHelpful) = Inr (Some r')
              \<and> filter (\<lambda>x. r_id x = r_id r)
                   (reviews (snd (Review_markHelpful d (r_id r) isHelpful))) = [r']
              \<and> r_total_votes r' = r_total_votes r + 1
              \<and> r_helpful_count r' = r_helpful_count r + (if isHelpful then 1 else 0)))
         \<and> (\<not> (r_total_votes r < 2147483647 \<and> (isHelpful \<longrightarrow> r_helpful_count r < 2147483647)) \<longrightarrow>
               Review_markHelpful d (r_id r) isHelpful = (Inl numeric_value_out_of_range, d))
         \<and> (\<forall>ops. \<forall>r' \<in> set (reviews (review_run d ops)).
               r_id r' = r_id r \<longrightarrow>
               r_helpful_count r \<le> r_helpful_count r' \<and> r_total_votes r \<le> r_total_votes r')"
proof (intro conjI allI ballI impI)
  from keyed have ids: "distinct (map r_id (reviews d))"
    by (simp add: reviews_keyed_def)
  from distinct_key_filter [OF ids r]
  have only: "filter (\<lambda>x. r_id x = r_id r) (reviews d) = [r]" .
  {
    assume fits: "r_total_votes r < 2147483647 \<and> (isHelpful \<longrightarrow> r_helpful_count r < 2147483647)"
    then have ok: "vote_fits isHelpful r"
      by (simp add: vote_fits_def int4_max_def)
    let ?g = "\<lambda>x. if r_id x = r_id r then review_voted isHelpful x else x"
    have "filter (\<lambda>x. r_id x = r_id r) (map ?g (reviews d)) =
        map ?g (filter (\<lambda>x. r_id x = r_id r) (reviews d))"
      by (simp add: filter_map comp_def cong: filter_cong)
    with only ok have stored: "filter (\<lambda>x. r_id x = r_id r)
        (reviews (snd (Review_markHelpful d (r_id r) isHelpful))) = [review_voted isHelpful r]"
      by (simp add: Review_markHelpful_def)
    from only ok
    have "fst (Review_markHelpful d (r_id r) isHelpful) = Inr (Some (review_voted isHelpful r))"
      by (simp add: Review_markHelpful_def)
    with stored
    show "\<exists>r'. fst (Review_markHelpful d (r_id r) isHelpful) = Inr (Some r')
        \<and> filter (\<lambda>x. r_id x = r_id r)
             (reviews (snd (Review_markHelpful d (r_id r) isHelpful))) = [r']
        \<and> r_total_votes r' = r_total_votes r + 1
        \<and> r_helpful_count r' = r_helpful_count r + (if isHelpful then 1 else 0)"
      by (simp add: review_voted_def)
  }
  {
    assume "\<not> (r_total_votes r < 2147483647 \<and> (isHelpful \<longrightarrow> r_helpful_count r < 2147483647))"
    then have "\<not> vote_fits isHelpful r"
      by (simp add: vote_fits_def int4_max_def)
    with only show "Review_markHelpful d (r_id r) isHelpful = (Inl numeric_value_out_of_range, d)"
      by (simp add: Review_markHelpful_def)
  }
next
  fix ops r'
  assume r': "r' \<in> set (reviews (review_run d ops))" and same: "r_id r' = r_id r"
  from keyed have ids: "distinct (map r_id (reviews d))"
    and old: "\<forall>x \<in> set (reviews d). r_id x \<le> reviews_id_seq d"
    by (simp_all add: reviews_keyed_def list_all_iff)
  from old r same have "\<not> reviews_id_seq d < r_id r'" by auto
  with counters_grow_run [of d ops] r'
  obtain x where x: "x \<in> set (reviews d)" "r_id x = r_id r'"
    "r_helpful_count x \<le> r_helpful_count r'" "r_total_votes x \<le> r_total_votes r'"
    by (auto simp: counters_grow_def list_all_iff list_ex_iff)
  from ids x(1) r x(2) same have "x = r"
    by (metis distinct_map inj_onD)
  with x show "r_helpful_count r \<le> r_helpful_count r'" "r_total_votes r \<le> r_total_votes r'"
    by simp_all
qed

theorem markHelpful_counts_witness:
  "map (\<lambda>x. (r_helpful_count x, r_total_votes x))
      (reviews (snd (Review_markHelpful reviewed_db 1 True))) = [(1, 1)]
   \<and> Review_markHelpful maxed_db 1 True = (Inl numeric_value_out_of_range, maxed_db)
   \<and> map (\<lambda>x. (r_helpful_count x, r_total_votes x))
      (reviews (review_run reviewed_db
         [Op_markHelpful 1 False, Op_update 1 (Some ''Dust'') None None, Op_markHelpful 1 True,
          Op_create 2 ''tt1160419'' omdb ''Spice'' ''Worth the long wait.'' 9])) = [(1, 2), (0, 0)]"
proof -
  let ?r = "\<lparr>r_id = 1, r_user_id = 1, r_movie_id = ''tt1160419'', r_movie_source = omdb,
             r_title = ''Sand'', r_content = ''A long walk in the desert.'', r_rating = 8,
             r_helpful_count = 0, r_total_votes = 0\<rparr>"
  let ?m = "\<lparr>r_id = 1, r_user_id = 1, r_movie_id = ''tt1160419'', r_movie_source = omdb,
             r_title = ''Sand'', r_content = ''A long walk in the desert.'', r_rating = 8,
             r_helpful_count = 5, r_total_votes = 2147483647\<rparr>"
  have k: "reviews_keyed reviewed_db"
    by (simp add: reviewed_db_eq reviews_keyed_def review_key_def)
  have m: "?r \<in> set (reviews reviewed_db)"
    by (simp add: reviewed_db_eq)
  from markHelpful_counts [OF k m, of True]
  obtain r' where one: "filter (\<lambda>x. r_id x = 1) (reviews (snd (Review_markHelpful reviewed_db 1 True))) = [r']"
    and votes: "r_total_votes r' = 1" "r_helpful_count r' = 1"
    by auto
  have "reviews (snd (Review_markHelpful reviewed_db 1 True))
      = filter (\<lambda>x. r_id x = 1) (reviews (snd (Review_markHelpful reviewed_db 1 True)))"
    by (simp add: reviewed_db_eq Review_markHelpful_def vote_fits_def review_voted_def int4_max_def)
  from this one have "reviews (snd (Review_markHelpful reviewed_db 1 True)) = [r']"
    by (rule trans)
  with votes have first: "map (\<lambda>x. (r_helpful_count x, r_total_votes x))
      (reviews (snd (Review_markHelpful reviewed_db 1 True))) = [(1, 1)]"
    by simp
  have km: "reviews_keyed maxed_db"
    by (simp add: maxed_db_def reviews_keyed_def review_key_def)
  have mm: "?m \<in> set (reviews maxed_db)"
    by (simp add: maxed_db_def)
  from markHelpful_counts [OF km mm, of True]
  have refused: "Review_markHelpful maxed_db 1 True = (Inl numeric_value_out_of_range, maxed_db)"
    by simp
  have "map (\<lambda>x. (r_helpful_count x, r_total_votes x))
      (reviews (review_run reviewed_db
         [Op_markHelpful 1 False, Op_update 1 (Some ''Dust'') None None, Op_markHelpful 1 True,
          Op_create 2 ''tt1160419'' omdb ''Spice'' ''Worth the long wait.'' 9])) = [(1, 2), (0, 0)]"
    by (simp add: reviewed_db_eq review_run_def Review_markHelpful_def Review_update_def
        Review_create_def review_voted_def review_updated_def review_row_rejected_def
        vote_fits_def int4_max_def
        same_review_key_def coalesce_def List.map_filter_def alice_def bob_def Let_def)
  with first refused show ?thesis by simp
qed

subsection \<open>The keys of the ledgers are kept\<close>

lemma review_key_voted [simp]: "review_key (review_voted h r) = review_key r"
  by (simp add: review_key_def review_voted_def)

lemma review_key_updated [simp]: "review_key (review_updated t c g r) = review_key r"
  by (simp add: review_key_def review_updated_def)

lemma reviews_keyed_create:
  assumes "reviews_keyed d"
  shows "reviews_keyed (snd (Review_create d userId movieId movieSource title content rating))"
proof -
  from assms have ids: "distinct (map r_id (reviews d))"
    and keys: "distinct (map review_key (reviews d))"
    and seq: "\<forall>r \<in> set (reviews d). r_id r \<le> reviews_id_seq d"
    by (simp_all add: reviews_keyed_def list_all_iff)
  from seq have fresh: "Suc (reviews_id_seq d) \<notin> r_id ` set (reviews d)"
    by auto
  have new: "(userId, movieId, movieSource) \<notin> review_key ` set (reviews d)"
    if "\<not> list_ex (same_review_key userId movieId movieSource) (reviews d)"
    using that by (auto simp: list_ex_iff same_review_key_def review_key_def)
  from seq have seq': "\<forall>r \<in> set (reviews d). r_id r \<le> Suc (reviews_id_seq d)"
    by auto
  from ids keys seq' fresh new show ?thesis
    by (auto simp: Review_create_def Let_def reviews_keyed_def list_all_iff review_key_def
        split: option.splits)
qed

lemma reviews_keyed_update:
  assumes "reviews_keyed d"
  shows "reviews_keyed (snd (Review_update d rid title content rating))"
proof -
  let ?g = "\<lambda>r. if r_id r = rid then review_updated title content rating r else r"
  have "map r_id (map ?g (reviews d)) = map r_id (reviews d)"
    and "map review_key (map ?g (reviews d)) = map review_key (reviews d)"
    by (simp_all add: comp_def cong: map_cong)
  with assms show ?thesis
    by (auto simp: Review_update_def Let_def reviews_keyed_def list_all_iff
        simp del: map_map split: option.splits)
qed

lemma reviews_keyed_delete:
  assumes "reviews_keyed d"
  shows "reviews_keyed (snd (Review_delete d rid))"
  using assms
  by (auto simp: Review_delete_def reviews_keyed_def list_all_iff distinct_map_filter)

lemma reviews_keyed_markHelpful:
  assumes "reviews_keyed d"
  shows "reviews_keyed (snd (Review_markHelpful d rid isHelpful))"
proof -
  let ?g = "\<lambda>r. if r_id r = rid then review_voted isHelpful r else r"
  have "map r_id (map ?g (reviews d)) = map r_id (reviews d)"
    and "map review_key (map ?g (reviews d)) = map review_key (reviews d)"
    by (simp_all add: comp_def cong: map_cong)
  with assms show ?thesis
    by (auto simp: Review_markHelpful_def Let_def reviews_keyed_def list_all_iff simp del: map_map)
qed

lemma reviews_keyed_step: "reviews_keyed d \<Longrightarrow> reviews_keyed (review_step d op)"
  by (cases op)
    (simp_all add: reviews_keyed_create reviews_keyed_update reviews_keyed_delete
      reviews_keyed_markHelpful)

lemma reviews_keyed_run: "reviews_keyed d \<Longrightarrow> reviews_keyed (review_run d ops)"
  unfolding review_run_def
  by (induction ops arbitrary: d) (simp_all add: reviews_keyed_step)

lemma reviews_keyed_fresh: "reviews_keyed fresh_db"
  by (simp add: reviews_keyed_def fresh_db_def)

lemma watchlists_keyed_insert:
  assumes "watchlists_keyed d"
  shows "watchlists_keyed (snd (watchlists_insert d userId movieId movieSource movieData))"
proof -
  have new: "(userId, movieId, movieSource) \<notin> watch_key ` set (watchlists d)"
    if "\<not> list_ex (same_watch_key userId movieId movieSource) (watchlists d)"
    using that by (auto simp: list_ex_iff same_watch_key_def watch_key_def)
  with assms show ?thesis
    by (auto simp: watchlists_insert_def Let_def watchlists_keyed_def list_all_iff watch_key_def)
qed

lemma watchlists_keyed_add:
  "watchlists_keyed d \<Longrightarrow> watchlists_keyed (snd (Watchlist_add d userId movieId movieSource movieData))"
  using watchlists_keyed_insert [of d userId movieId movieSource movieData]
  by (auto simp: Watchlist_add_def split: prod.splits sum.splits)

lemma transformToOMDBFormat_reference:
  "imdbID (transformToOMDBFormat movie) = encode custom (nat_toString (m_id movie))
   \<and> valid_reference custom (nat_toString (m_id movie))
   \<and> decode (imdbID (transformToOMDBFormat movie)) = (custom, nat_toString (m_id movie))"
proof -
  have "local_prefix \<noteq> []" by (simp add: local_prefix_def)
  then have "replace_first local_prefix [] (local_prefix @ nat_toString (m_id movie))
      = nat_toString (m_id movie)"
    by (simp add: replace_first_prefix)
  moreover have "imdbID (transformToOMDBFormat movie) = local_prefix @ nat_toString (m_id movie)"
    by (simp add: transformToOMDBFormat_def local_prefix_def)
  ultimately show ?thesis
    by (simp add: decode_def nat_toString_numeric)
qed

end
